theory Spec2Isabelle
  imports Complex_Main
begin

section \<open>The API client: frontend/src/api/client.ts\<close>

text \<open>
  A JavaScript \<^verbatim>\<open>number\<close> is modelled as a real number; the not-a-number value and
  the infinities have no counterpart here.
\<close>

type_synonym number = real

subsection \<open>Payloads of the server-sent events\<close>

text \<open>
  One record per interface of the client, field for field. A field of type
  \<^verbatim>\<open>T | null\<close> and an optional field \<^verbatim>\<open>f?: T\<close> both become \<open>T option\<close>,
  except in a run configuration below, where the form tells \<^verbatim>\<open>undefined\<close> from
  \<^verbatim>\<open>null\<close>.
\<close>

datatype stream_tag = stdout | stderr

record SSEStatusEvent =
  status :: string
  timestamp :: string

record SSELogLineEvent =
  stream :: stream_tag
  line :: string

record SSEProgressEvent =
  current :: number
  total :: number
  percentage :: number
  message :: "string option"

record SSECompletedEvent =
  exit_code :: number
  finished_at :: "string option"

record SSEFailedEvent =
  exit_code :: number
  error :: "string option"
  finished_at :: "string option"

record SSECanceledEvent =
  finished_at :: "string option"

record SSEHeartbeatEvent =
  timestamp :: string

text \<open>
  The LogLine event of the specification's data model (section 3), for comparison: a log
  line event that carries a sequence number besides the stream tag and the text. It is a
  value of the client's type \<^verbatim>\<open>SSELogLineEvent\<close> with one more field.
\<close>

record LogLine = SSELogLineEvent +
  sequence_number :: nat

subsection \<open>Run configuration and run records\<close>

text \<open>
  The optional numbers of a run configuration are declared \<^verbatim>\<open>f?: number\<close>. A
  configuration that comes back from the server as JSON can hold \<^verbatim>\<open>null\<close> there,
  and the form compares with \<^verbatim>\<open>undefined\<close> only, so the three cases are kept
  apart.
\<close>

datatype 'a optional = Undefined | Null | Value 'a

record RunConfig =
  schema_version :: "number optional"
  benchmark :: string
  model :: string
  limit :: "number optional"
  temperature :: "number optional"
  top_p :: "number optional"
  max_tokens :: "number optional"
  timeout :: "number optional"
  epochs :: "number optional"
  max_connections :: "number optional"

text \<open>
  \<^verbatim>\<open>RunSummary.status\<close> is declared as a union of five string literals. The page
  stores the status string of a status event there behind an unchecked cast, so the field
  holds a string.
\<close>

record RunSummary =
  run_id :: string
  benchmark :: string
  model :: string
  status :: string
  created_at :: string
  finished_at :: "string option"
  primary_metric :: "number option"

record RunDetail = RunSummary +
  started_at :: "string option"
  artifact_dir :: "string option"
  exit_code :: "number option"
  error :: "string option"
  config :: "RunConfig option"
  command :: "string option"
  artifacts :: "string list"
  stdout_tail :: "string option"
  stderr_tail :: "string option"

subsection \<open>subscribeToRunEvents\<close>

text \<open>
  What a JavaScript call can throw: an \<^verbatim>\<open>Error\<close> with its message, or one of the
  built-in subclasses the client meets (\<^verbatim>\<open>JSON.parse\<close> throws a SyntaxError, a
  property read on \<^verbatim>\<open>null\<close> a TypeError). All three are instances of Error.
\<close>

datatype js_error = Error string | SyntaxError | TypeError

text \<open>
  A handler is a callback of the subscriber. It returns, throws an Error, or throws a
  value that is not an Error.
\<close>

datatype outcome = Returns | ThrowsError js_error | ThrowsOther

text \<open>
  The type \<^verbatim>\<open>SSEEventHandlers\<close>: every handler is optional. \<open>'j\<close> is the type of
  the values \<^verbatim>\<open>JSON.parse\<close> produces; the casts \<^verbatim>\<open>as SSEStatusEvent\<close> and so on
  are unchecked, so the client hands the parsed value on as it is.
\<close>

record 'j SSEEventHandlers =
  onStatus :: "('j \<Rightarrow> outcome) option"
  onLogLine :: "('j \<Rightarrow> outcome) option"
  onProgress :: "('j \<Rightarrow> outcome) option"
  onCompleted :: "('j \<Rightarrow> outcome) option"
  onFailed :: "('j \<Rightarrow> outcome) option"
  onCanceled :: "('j \<Rightarrow> outcome) option"
  onHeartbeat :: "('j \<Rightarrow> outcome) option"
  onError :: "(js_error \<Rightarrow> outcome) option"

datatype handler_name =
  OnStatus | OnLogLine | OnProgress | OnCompleted | OnFailed | OnCanceled | OnHeartbeat

text \<open>
  The observable state of one subscription: whether \<^verbatim>\<open>eventSource.close()\<close> has run,
  and the handler invocations so far, oldest first.
\<close>

datatype 'j invocation = Invoked handler_name 'j | InvokedOnError js_error

record 'j EventSource =
  closed :: bool
  invocations :: "'j invocation list"

definition new_EventSource :: "'j EventSource" where
  "new_EventSource = \<lparr>closed = False, invocations = []\<rparr>"

text \<open>\<^verbatim>\<open>handlers.onX?.(data)\<close>: nothing happens when the handler is undefined.\<close>

definition call_optional ::
  "('j \<Rightarrow> outcome) option \<Rightarrow> handler_name \<Rightarrow> 'j \<Rightarrow> 'j EventSource \<Rightarrow> outcome \<times> 'j EventSource" where
  "call_optional h k d es =
     (case h of
        None \<Rightarrow> (Returns, es)
      | Some f \<Rightarrow> (f d, es\<lparr>invocations := invocations es @ [Invoked k d]\<rparr>))"

text \<open>\<^verbatim>\<open>handlers.onError?.(err)\<close>.\<close>

definition call_onError ::
  "'j SSEEventHandlers \<Rightarrow> js_error \<Rightarrow> 'j EventSource \<Rightarrow> outcome \<times> 'j EventSource" where
  "call_onError hs err es =
     (case onError hs of
        None \<Rightarrow> (Returns, es)
      | Some f \<Rightarrow> (f err, es\<lparr>invocations := invocations es @ [InvokedOnError err]\<rparr>))"

text \<open>
  The body of a listener's \<^verbatim>\<open>try\<close> block: parse the data, call the handler, and for a
  terminal event close the connection. The data of a message is given with what
  \<^verbatim>\<open>JSON.parse\<close> makes of it: \<open>None\<close> where it throws. The first component is what
  the block throws, \<open>Returns\<close> when it runs to its end.
\<close>

definition try_block ::
  "('j \<Rightarrow> outcome) option \<Rightarrow> handler_name \<Rightarrow> bool \<Rightarrow> 'j option \<Rightarrow> 'j EventSource
     \<Rightarrow> outcome \<times> 'j EventSource" where
  "try_block h k closes data es =
     (case data of
        None \<Rightarrow> (ThrowsError SyntaxError, es)
      | Some d \<Rightarrow>
          (case call_optional h k d es of
             (Returns, es') \<Rightarrow> (Returns, if closes then es'\<lparr>closed := True\<rparr> else es')
           | (thrown, es') \<Rightarrow> (thrown, es')))"

text \<open>
  The \<^verbatim>\<open>catch\<close> clause shared by six of the listeners:
  \<^verbatim>\<open>handlers.onError?.(err instanceof Error ? err : new Error('Failed to parse X event'))\<close>.
  An exception of \<^verbatim>\<open>onError\<close> itself leaves the listener and changes nothing more.
\<close>

definition catch_clause ::
  "'j SSEEventHandlers \<Rightarrow> string \<Rightarrow> outcome \<times> 'j EventSource \<Rightarrow> 'j EventSource" where
  "catch_clause hs label r =
     (case r of
        (Returns, es) \<Rightarrow> es
      | (ThrowsError err, es) \<Rightarrow> snd (call_onError hs err es)
      | (ThrowsOther, es) \<Rightarrow>
          snd (call_onError hs (Error (''Failed to parse '' @ label @ '' event'')) es))"

definition status_listener ::
  "'j SSEEventHandlers \<Rightarrow> 'j option \<Rightarrow> 'j EventSource \<Rightarrow> 'j EventSource" where
  "status_listener hs data es =
     catch_clause hs ''status'' (try_block (onStatus hs) OnStatus False data es)"

definition log_line_listener ::
  "'j SSEEventHandlers \<Rightarrow> 'j option \<Rightarrow> 'j EventSource \<Rightarrow> 'j EventSource" where
  "log_line_listener hs data es =
     catch_clause hs ''log_line'' (try_block (onLogLine hs) OnLogLine False data es)"

definition progress_listener ::
  "'j SSEEventHandlers \<Rightarrow> 'j option \<Rightarrow> 'j EventSource \<Rightarrow> 'j EventSource" where
  "progress_listener hs data es =
     catch_clause hs ''progress'' (try_block (onProgress hs) OnProgress False data es)"

definition completed_listener ::
  "'j SSEEventHandlers \<Rightarrow> 'j option \<Rightarrow> 'j EventSource \<Rightarrow> 'j EventSource" where
  "completed_listener hs data es =
     catch_clause hs ''completed'' (try_block (onCompleted hs) OnCompleted True data es)"

definition failed_listener ::
  "'j SSEEventHandlers \<Rightarrow> 'j option \<Rightarrow> 'j EventSource \<Rightarrow> 'j EventSource" where
  "failed_listener hs data es =
     catch_clause hs ''failed'' (try_block (onFailed hs) OnFailed True data es)"

definition canceled_listener ::
  "'j SSEEventHandlers \<Rightarrow> 'j option \<Rightarrow> 'j EventSource \<Rightarrow> 'j EventSource" where
  "canceled_listener hs data es =
     catch_clause hs ''canceled'' (try_block (onCanceled hs) OnCanceled True data es)"

text \<open>The heartbeat listener's \<^verbatim>\<open>catch\<close> clause is empty.\<close>

definition heartbeat_listener ::
  "'j SSEEventHandlers \<Rightarrow> 'j option \<Rightarrow> 'j EventSource \<Rightarrow> 'j EventSource" where
  "heartbeat_listener hs data es = snd (try_block (onHeartbeat hs) OnHeartbeat False data es)"

text \<open>
  \<^verbatim>\<open>eventSource.onerror\<close>: report to \<^verbatim>\<open>onError\<close>, then close. The close is not
  reached when \<^verbatim>\<open>onError\<close> throws.
\<close>

definition onerror :: "'j SSEEventHandlers \<Rightarrow> 'j EventSource \<Rightarrow> 'j EventSource" where
  "onerror hs es =
     (case call_onError hs (Error ''SSE connection error'') es of
        (Returns, es') \<Rightarrow> es'\<lparr>closed := True\<rparr>
      | (thrown, es') \<Rightarrow> es')"

text \<open>The \<^verbatim>\<open>addEventListener\<close> calls, in the order of the source.\<close>

definition listeners ::
  "'j SSEEventHandlers \<Rightarrow> (string \<times> ('j option \<Rightarrow> 'j EventSource \<Rightarrow> 'j EventSource)) list" where
  "listeners hs =
     [(''status'', status_listener hs),
      (''log_line'', log_line_listener hs),
      (''progress'', progress_listener hs),
      (''completed'', completed_listener hs),
      (''failed'', failed_listener hs),
      (''canceled'', canceled_listener hs),
      (''heartbeat'', heartbeat_listener hs)]"

text \<open>
  What reaches the subscription from outside: a message of the stream (its event name, and
  its data as parsed), a connection error, or a call of the cleanup function that
  \<^verbatim>\<open>subscribeToRunEvents\<close> returns. A message is dispatched as an event whose
  type is its event name, so a message named \<^verbatim>\<open>error\<close> is an event of type
  \<^verbatim>\<open>error\<close> and runs \<^verbatim>\<open>eventSource.onerror\<close>, as a connection error does.
\<close>

datatype 'j sse_input = Message string "'j option" | ConnectionError | Cleanup

fun deliver :: "'j SSEEventHandlers \<Rightarrow> 'j sse_input \<Rightarrow> 'j EventSource \<Rightarrow> 'j EventSource" where
  "deliver hs (Message name data) es =
     (if name = ''error'' then onerror hs es
      else case map_of (listeners hs) name of None \<Rightarrow> es | Some listener \<Rightarrow> listener data es)"
| "deliver hs ConnectionError es = onerror hs es"
| "deliver hs Cleanup es = es\<lparr>closed := True\<rparr>"

text \<open>A closed EventSource dispatches nothing any more.\<close>

fun run_events :: "'j SSEEventHandlers \<Rightarrow> 'j sse_input list \<Rightarrow> 'j EventSource \<Rightarrow> 'j EventSource" where
  "run_events hs [] es = es"
| "run_events hs (i # inputs) es =
     (if closed es then es else run_events hs inputs (deliver hs i es))"

definition subscribeToRunEvents :: "'j SSEEventHandlers \<Rightarrow> 'j sse_input list \<Rightarrow> 'j EventSource" where
  "subscribeToRunEvents hs inputs = run_events hs inputs new_EventSource"

text \<open>The handler that a listener of the given name calls.\<close>

fun handler_of :: "'j SSEEventHandlers \<Rightarrow> handler_name \<Rightarrow> ('j \<Rightarrow> outcome) option" where
  "handler_of hs OnStatus = onStatus hs"
| "handler_of hs OnLogLine = onLogLine hs"
| "handler_of hs OnProgress = onProgress hs"
| "handler_of hs OnCompleted = onCompleted hs"
| "handler_of hs OnFailed = onFailed hs"
| "handler_of hs OnCanceled = onCanceled hs"
| "handler_of hs OnHeartbeat = onHeartbeat hs"

definition event_names :: "(string \<times> handler_name) list" where
  "event_names =
     [(''status'', OnStatus), (''log_line'', OnLogLine), (''progress'', OnProgress),
      (''completed'', OnCompleted), (''failed'', OnFailed), (''canceled'', OnCanceled),
      (''heartbeat'', OnHeartbeat)]"

definition terminal_names :: "string list" where
  "terminal_names = [''completed'', ''failed'', ''canceled'']"

text \<open>A handler that is absent, or returns on the given value.\<close>

definition returns_on :: "('j \<Rightarrow> outcome) option \<Rightarrow> 'j \<Rightarrow> bool" where
  "returns_on h d = (case h of None \<Rightarrow> True | Some f \<Rightarrow> f d = Returns)"

subsection \<open>The request helper\<close>

text \<open>
  The values \<^verbatim>\<open>response.json()\<close> produces. An object lists its properties, each
  name once.
\<close>

datatype json =
    JNull
  | JBool bool
  | JNumber number
  | JString string
  | JArray "json list"
  | JObject "(string \<times> json) list"

text \<open>
  A response as the helper reads it: \<^verbatim>\<open>ok\<close>, \<^verbatim>\<open>status\<close>, and what
  \<^verbatim>\<open>response.json()\<close> resolves to, \<open>None\<close> where it rejects (the body is not JSON).
\<close>

record response =
  ok :: bool
  status :: nat
  json :: "json option"

record RequestInit =
  http_method :: "string option"
  body :: "string option"
  headers :: "(string \<times> string) list"

text \<open>\<^verbatim>\<open>fetch\<close> is the platform's: it rejects, or resolves to a response.\<close>

type_synonym fetch = "string \<Rightarrow> RequestInit \<Rightarrow> js_error + response"

definition API_BASE :: string where
  "API_BASE = ''/api''"

text \<open>
  A property read \<^verbatim>\<open>v.name\<close>: a TypeError on \<^verbatim>\<open>null\<close>, the property of an object
  (\<open>None\<close> for \<^verbatim>\<open>undefined\<close>), and \<^verbatim>\<open>undefined\<close> on every other value, none of
  which has a property called \<^verbatim>\<open>detail\<close>.
\<close>

fun get_property :: "json \<Rightarrow> string \<Rightarrow> js_error + json option" where
  "get_property JNull name = Inl TypeError"
| "get_property (JObject properties) name = Inr (map_of properties name)"
| "get_property v name = Inr None"

text \<open>
  The casts \<^verbatim>\<open>JSON.parse(e.data) as SSEStatusEvent\<close> and so on are unchecked. The
  functions below say which parsed values have the declared type, and give the record such
  a value is read as: \<open>None\<close> for a value that is not of the type. A required field must
  be there with a value of its type; a field \<^verbatim>\<open>T | null\<close> must be there, with a
  value of \<open>T\<close> or \<^verbatim>\<open>null\<close>; an optional field \<^verbatim>\<open>f?: T\<close> is absent or holds
  a value of \<open>T\<close>. Further properties of the value are not part of the record.
\<close>

fun field :: "json \<Rightarrow> string \<Rightarrow> json option" where
  "field (JObject properties) name = map_of properties name"
| "field v name = None"

fun required_string :: "json option \<Rightarrow> string option" where
  "required_string (Some (JString s)) = Some s"
| "required_string v = None"

fun required_number :: "json option \<Rightarrow> number option" where
  "required_number (Some (JNumber n)) = Some n"
| "required_number v = None"

fun nullable_string :: "json option \<Rightarrow> string option option" where
  "nullable_string (Some (JString s)) = Some (Some s)"
| "nullable_string (Some JNull) = Some None"
| "nullable_string v = None"

fun optional_string :: "json option \<Rightarrow> string option option" where
  "optional_string None = Some None"
| "optional_string (Some (JString s)) = Some (Some s)"
| "optional_string v = None"

fun required_stream :: "json option \<Rightarrow> stream_tag option" where
  "required_stream (Some (JString s)) =
     (if s = ''stdout'' then Some stdout else if s = ''stderr'' then Some stderr else None)"
| "required_stream v = None"

definition as_SSEStatusEvent :: "json \<Rightarrow> SSEStatusEvent option" where
  "as_SSEStatusEvent v =
     (case (required_string (field v ''status''), required_string (field v ''timestamp'')) of
        (Some s, Some t) \<Rightarrow> Some \<lparr>SSEStatusEvent.status = s, SSEStatusEvent.timestamp = t\<rparr>
      | _ \<Rightarrow> None)"

definition as_SSELogLineEvent :: "json \<Rightarrow> SSELogLineEvent option" where
  "as_SSELogLineEvent v =
     (case (required_stream (field v ''stream''), required_string (field v ''line'')) of
        (Some s, Some l) \<Rightarrow> Some \<lparr>stream = s, line = l\<rparr>
      | _ \<Rightarrow> None)"

definition as_SSEProgressEvent :: "json \<Rightarrow> SSEProgressEvent option" where
  "as_SSEProgressEvent v =
     (case (required_number (field v ''current''), required_number (field v ''total''),
            required_number (field v ''percentage''), optional_string (field v ''message'')) of
        (Some c, Some t, Some p, Some m) \<Rightarrow>
          Some \<lparr>current = c, total = t, percentage = p, message = m\<rparr>
      | _ \<Rightarrow> None)"

definition as_SSECompletedEvent :: "json \<Rightarrow> SSECompletedEvent option" where
  "as_SSECompletedEvent v =
     (case (required_number (field v ''exit_code''), nullable_string (field v ''finished_at'')) of
        (Some c, Some f) \<Rightarrow>
          Some \<lparr>SSECompletedEvent.exit_code = c, SSECompletedEvent.finished_at = f\<rparr>
      | _ \<Rightarrow> None)"

definition as_SSEFailedEvent :: "json \<Rightarrow> SSEFailedEvent option" where
  "as_SSEFailedEvent v =
     (case (required_number (field v ''exit_code''), nullable_string (field v ''error''),
            nullable_string (field v ''finished_at'')) of
        (Some c, Some e, Some f) \<Rightarrow>
          Some \<lparr>SSEFailedEvent.exit_code = c, SSEFailedEvent.error = e,
                SSEFailedEvent.finished_at = f\<rparr>
      | _ \<Rightarrow> None)"

definition as_SSECanceledEvent :: "json \<Rightarrow> SSECanceledEvent option" where
  "as_SSECanceledEvent v =
     (case nullable_string (field v ''finished_at'') of
        Some f \<Rightarrow> Some \<lparr>SSECanceledEvent.finished_at = f\<rparr>
      | None \<Rightarrow> None)"

definition as_SSEHeartbeatEvent :: "json \<Rightarrow> SSEHeartbeatEvent option" where
  "as_SSEHeartbeatEvent v =
     (case required_string (field v ''timestamp'') of
        Some t \<Rightarrow> Some \<lparr>SSEHeartbeatEvent.timestamp = t\<rparr>
      | None \<Rightarrow> None)"

text \<open>The left operand of \<^verbatim>\<open>||\<close> is taken when it is truthy.\<close>

fun truthy :: "json \<Rightarrow> bool" where
  "truthy JNull = False"
| "truthy (JBool b) = b"
| "truthy (JNumber n) = (n \<noteq> 0)"
| "truthy (JString s) = (s \<noteq> [])"
| "truthy (JArray vs) = True"
| "truthy (JObject properties) = True"

text \<open>
  \<^verbatim>\<open>new Error(v)\<close> converts \<open>v\<close> to a string for the message: a string is taken as
  it is, any other value goes through the platform's conversion \<open>ToString\<close>.
\<close>

fun message_of :: "(json \<Rightarrow> string) \<Rightarrow> json \<Rightarrow> string" where
  "message_of ToString (JString s) = s"
| "message_of ToString v = ToString v"

text \<open>The decimal numeral of a status code, as a template literal prints it.\<close>

definition digit_char :: "nat \<Rightarrow> char" where
  "digit_char n = char_of (48 + n)"

function string_of_nat :: "nat \<Rightarrow> string" where
  "string_of_nat n =
     (if n < 10 then [digit_char n] else string_of_nat (n div 10) @ [digit_char (n mod 10)])"
  by pat_completeness auto
termination
  by (relation "measure (\<lambda>n. n)") auto

text \<open>
  The helper \<^verbatim>\<open>request\<close>, as the value its promise resolves to (\<open>Inr\<close>) or the
  error it rejects with (\<open>Inl\<close>). The headers of the options stand before the default
  content type, so that a lookup finds them first, as the object spread lets them override
  it. For a response that is not ok, \<^verbatim>\<open>response.json().catch(() => ({}))\<close> gives the
  empty object where the body is not JSON.
\<close>

definition request :: "(json \<Rightarrow> string) \<Rightarrow> fetch \<Rightarrow> string \<Rightarrow> RequestInit \<Rightarrow> js_error + json" where
  "request ToString fetch endpoint options =
     (case fetch (API_BASE @ endpoint)
             (options\<lparr>headers := headers options @ [(''Content-Type'', ''application/json'')]\<rparr>) of
        Inl rejected \<Rightarrow> Inl rejected
      | Inr response \<Rightarrow>
          if \<not> ok response then
            (case get_property (case json response of None \<Rightarrow> JObject [] | Some v \<Rightarrow> v) ''detail'' of
               Inl thrown \<Rightarrow> Inl thrown
             | Inr None \<Rightarrow>
                 Inl (Error (''Request failed: '' @ string_of_nat (response.status response)))
             | Inr (Some detail) \<Rightarrow>
                 Inl (Error
                   (if truthy detail then message_of ToString detail
                    else ''Request failed: '' @ string_of_nat (response.status response))))
          else (case json response of None \<Rightarrow> Inl SyntaxError | Some v \<Rightarrow> Inr v))"

text \<open>The endpoint of \<^verbatim>\<open>getRun\<close>; \<^verbatim>\<open>logLines\<close> defaults to 100.\<close>

definition getRun_endpoint :: "string \<Rightarrow> nat \<Rightarrow> string" where
  "getRun_endpoint runId logLines = ''/runs/'' @ runId @ ''?log_lines='' @ string_of_nat logLines"

definition getRun :: "(json \<Rightarrow> string) \<Rightarrow> fetch \<Rightarrow> string \<Rightarrow> nat \<Rightarrow> js_error + json" where
  "getRun ToString fetch runId logLines =
     request ToString fetch (getRun_endpoint runId logLines)
       \<lparr>http_method = None, body = None, headers = []\<rparr>"



section \<open>The run detail page: the component RunDetail\<close>

text \<open>
  The component's state: the route parameter, the \<^verbatim>\<open>useState\<close> values and the two
  refs. \<open>sseCleanup\<close> records whether the ref holds a cleanup function.
\<close>

record RunDetailPage =
  id' :: "string option"
  run :: "RunDetail option"
  loading :: bool
  error :: "string option"
  stdoutLines :: "string list"
  stderrLines :: "string list"
  progress :: "SSEProgressEvent option"
  isSSEConnected :: bool
  sseCleanup :: bool
  hasInitializedSSE :: bool

text \<open>\<^verbatim>\<open>x || undefined\<close> for \<open>x\<close> a string or null.\<close>

definition or_undefined :: "string option \<Rightarrow> string option" where
  "or_undefined x = (case x of None \<Rightarrow> None | Some s \<Rightarrow> if s = [] then None else Some s)"

text \<open>\<^verbatim>\<open>setRun((prev) => prev ? f(prev) : null)\<close>.\<close>

definition setRun :: "(RunDetail \<Rightarrow> RunDetail) \<Rightarrow> RunDetailPage \<Rightarrow> RunDetailPage" where
  "setRun f p = p\<lparr>run := map_option f (run p)\<rparr>"

text \<open>
  The handlers that \<^verbatim>\<open>subscribeToEvents\<close> passes to the client, by their keys: each
  is the state update it makes. The effects that React runs again after an update are
  \<open>after_update\<close> below. The handlers of log lines and of canceled events take an event
  with any further fields, to state what they read of it.
\<close>

definition handle_onStatus :: "SSEStatusEvent \<Rightarrow> RunDetailPage \<Rightarrow> RunDetailPage" where
  "handle_onStatus event p =
     setRun (\<lambda>prev. prev\<lparr>RunSummary.status := SSEStatusEvent.status event\<rparr>) p"

definition handle_onLogLine :: "'a SSELogLineEvent_scheme \<Rightarrow> RunDetailPage \<Rightarrow> RunDetailPage" where
  "handle_onLogLine event p =
     (if stream event = stdout then p\<lparr>stdoutLines := stdoutLines p @ [line event]\<rparr>
      else p\<lparr>stderrLines := stderrLines p @ [line event]\<rparr>)"

definition handle_onProgress :: "SSEProgressEvent \<Rightarrow> RunDetailPage \<Rightarrow> RunDetailPage" where
  "handle_onProgress event p = p\<lparr>progress := Some event\<rparr>"

definition handle_onCompleted :: "SSECompletedEvent \<Rightarrow> RunDetailPage \<Rightarrow> RunDetailPage" where
  "handle_onCompleted event p =
     (setRun (\<lambda>prev. prev\<lparr>RunSummary.status := ''completed'',
                 RunDetail.exit_code := Some (SSECompletedEvent.exit_code event),
                 RunSummary.finished_at := or_undefined (SSECompletedEvent.finished_at event)\<rparr>) p)
       \<lparr>isSSEConnected := False\<rparr>"

definition handle_onFailed :: "SSEFailedEvent \<Rightarrow> RunDetailPage \<Rightarrow> RunDetailPage" where
  "handle_onFailed event p =
     (setRun (\<lambda>prev. prev\<lparr>RunSummary.status := ''failed'',
                 RunDetail.exit_code := Some (SSEFailedEvent.exit_code event),
                 RunDetail.error := or_undefined (SSEFailedEvent.error event),
                 RunSummary.finished_at := or_undefined (SSEFailedEvent.finished_at event)\<rparr>) p)
       \<lparr>isSSEConnected := False\<rparr>"



text \<open>\<^verbatim>\<open>!id\<close>: the route parameter is undefined or the empty string.\<close>

definition no_id :: "RunDetailPage \<Rightarrow> bool" where
  "no_id p = (case id' p of None \<Rightarrow> True | Some runId \<Rightarrow> runId = [])"

definition subscribeToEvents :: "RunDetailPage \<Rightarrow> RunDetailPage" where
  "subscribeToEvents p =
     (if no_id p \<or> hasInitializedSSE p then p
      else p\<lparr>hasInitializedSSE := True, sseCleanup := True, isSSEConnected := True\<rparr>)"

text \<open>
  \<^verbatim>\<open>run?.status === 'running' || run?.status === 'queued'\<close>.
\<close>

definition is_active :: "RunDetail option \<Rightarrow> bool" where
  "is_active r =
     (case r of None \<Rightarrow> False
      | Some d \<Rightarrow> RunSummary.status d = ''running'' \<or> RunSummary.status d = ''queued'')"

text \<open>
  The polling effect: with an id and no live connection, and while the run is active or
  not loaded yet, \<^verbatim>\<open>setInterval\<close> calls \<^verbatim>\<open>loadRun\<close> every 2000 ms, and
  \<^verbatim>\<open>loadRun\<close> fetches \<^verbatim>\<open>api.getRun(id)\<close>. The result is the period and the
  endpoint polled, \<open>None\<close> when the effect sets no interval.
\<close>

definition polling_effect :: "RunDetailPage \<Rightarrow> (nat \<times> string) option" where
  "polling_effect p =
     (case id' p of
        None \<Rightarrow> None
      | Some runId \<Rightarrow>
          if runId = [] \<or> isSSEConnected p then None
          else if is_active (run p) \<or> run p = None then
            Some (2000, getRun_endpoint runId 100)
          else None)"

text \<open>
  The effect that starts the subscription depends on \<^verbatim>\<open>run?.status\<close> (and on
  \<^verbatim>\<open>subscribeToEvents\<close>, which changes with the id only). Its body subscribes when
  the run is queued or running. Its cleanup calls the stored cleanup function, which closes
  the EventSource, and clears the ref.
\<close>

definition run_status :: "RunDetailPage \<Rightarrow> string option" where
  "run_status p = map_option RunSummary.status (run p)"

definition sse_effect :: "RunDetailPage \<Rightarrow> RunDetailPage" where
  "sse_effect p = (if is_active (run p) then subscribeToEvents p else p)"

definition sse_effect_cleanup :: "RunDetailPage \<Rightarrow> RunDetailPage" where
  "sse_effect_cleanup p = p\<lparr>sseCleanup := False\<rparr>"

text \<open>
  The page after an update from \<open>before\<close> to \<open>after\<close>: when the status of the run
  has changed, React runs the cleanup of the subscribing effect and then its body.
  \<open>closes_EventSource\<close> says whether that cleanup closes the EventSource of a subscription.
\<close>

definition after_update :: "RunDetailPage \<Rightarrow> RunDetailPage \<Rightarrow> RunDetailPage" where
  "after_update before after =
     (if run_status after = run_status before then after
      else sse_effect (sse_effect_cleanup after))"

definition closes_EventSource :: "RunDetailPage \<Rightarrow> RunDetailPage \<Rightarrow> bool" where
  "closes_EventSource before after = (run_status after \<noteq> run_status before \<and> sseCleanup after)"

section \<open>The run form: frontend/src/components/RunForm.tsx\<close>

text \<open>
  The \<^verbatim>\<open>useState\<close> values of the form. The numbers are declared
  \<^verbatim>\<open>number | undefined\<close>; a prefill can bring \<^verbatim>\<open>null\<close> into them.
\<close>

record RunFormState =
  benchmark :: string
  model :: string
  customModel :: string
  limit :: "number optional"
  showAdvanced :: bool
  temperature :: "number optional"
  topP :: "number optional"
  maxTokens :: "number optional"
  timeout :: "number optional"
  epochs :: "number optional"
  maxConnections :: "number optional"

text \<open>\<^verbatim>\<open>x ?? 10\<close>: 10 for \<^verbatim>\<open>undefined\<close> and for \<^verbatim>\<open>null\<close>.\<close>

fun or_ten :: "number optional \<Rightarrow> number optional" where
  "or_ten (Value n) = Value n"
| "or_ten v = Value 10"

text \<open>
  The state a form starts in, given the ids of \<^verbatim>\<open>MODEL_PROVIDERS\<close> and the optional
  prefill. The effect on \<^verbatim>\<open>prefill\<close> opens the advanced settings when one of them is
  not \<^verbatim>\<open>undefined\<close> in the prefill.
\<close>

definition initial_state :: "string list \<Rightarrow> RunConfig option \<Rightarrow> RunFormState" where
  "initial_state allModelIds prefill =
     (case prefill of
        None \<Rightarrow>
          \<lparr>benchmark = [], model = [], customModel = [], limit = Value 10, showAdvanced = False,
           temperature = Undefined, topP = Undefined, maxTokens = Undefined,
           timeout = Undefined, epochs = Undefined, maxConnections = Undefined\<rparr>
      | Some c \<Rightarrow>
          (let isPrefillModelKnown = (RunConfig.model c \<noteq> [] \<and> RunConfig.model c \<in> set allModelIds)
           in \<lparr>benchmark = RunConfig.benchmark c,
               model = (if RunConfig.model c \<noteq> []
                        then (if isPrefillModelKnown then RunConfig.model c else ''custom'')
                        else []),
               customModel = (if RunConfig.model c \<noteq> [] \<and> \<not> isPrefillModelKnown
                              then RunConfig.model c else []),
               limit = or_ten (RunConfig.limit c),
               showAdvanced =
                 (RunConfig.temperature c \<noteq> Undefined \<or> top_p c \<noteq> Undefined \<or>
                  max_tokens c \<noteq> Undefined \<or> RunConfig.timeout c \<noteq> Undefined \<or>
                  RunConfig.epochs c \<noteq> Undefined \<or> max_connections c \<noteq> Undefined),
               temperature = RunConfig.temperature c, topP = top_p c, maxTokens = max_tokens c,
               timeout = RunConfig.timeout c, epochs = RunConfig.epochs c,
               maxConnections = max_connections c\<rparr>))"

text \<open>
  \<^verbatim>\<open>handleNumberInput\<close>, as the value it hands to the setter. \<^verbatim>\<open>parseInt\<close> and
  \<^verbatim>\<open>parseFloat\<close> are the platform's.
\<close>

definition handleNumberInput ::
  "(string \<Rightarrow> number) \<Rightarrow> (string \<Rightarrow> number) \<Rightarrow> string \<Rightarrow> bool \<Rightarrow> number optional" where
  "handleNumberInput parseInt parseFloat v isFloat =
     (if v = [] then Undefined else Value (if isFloat then parseFloat v else parseInt v))"

text \<open>
  What a user does to the form short of submitting it. The inputs of the advanced settings
  exist only while \<^verbatim>\<open>showAdvanced\<close> holds, and the input of the custom model only while
  the model is \<^verbatim>\<open>custom\<close>.
\<close>

datatype form_event =
    SetBenchmark string
  | SetModel string
  | SetCustomModel string
  | LimitInput string
  | ToggleAdvanced
  | TemperatureInput string
  | TopPInput string
  | MaxTokensInput string
  | TimeoutInput string
  | EpochsInput string
  | MaxConnectionsInput string

fun form_step ::
  "(string \<Rightarrow> number) \<Rightarrow> (string \<Rightarrow> number) \<Rightarrow> form_event \<Rightarrow> RunFormState \<Rightarrow> RunFormState" where
  "form_step pI pF (SetBenchmark b) st = st\<lparr>benchmark := b\<rparr>"
| "form_step pI pF (SetModel m) st = st\<lparr>model := m\<rparr>"
| "form_step pI pF (SetCustomModel m) st =
     (if model st = ''custom'' then st\<lparr>customModel := m\<rparr> else st)"
| "form_step pI pF (LimitInput v) st = st\<lparr>limit := handleNumberInput pI pF v False\<rparr>"
| "form_step pI pF ToggleAdvanced st = st\<lparr>showAdvanced := \<not> showAdvanced st\<rparr>"
| "form_step pI pF (TemperatureInput v) st =
     (if showAdvanced st then st\<lparr>temperature := handleNumberInput pI pF v True\<rparr> else st)"
| "form_step pI pF (TopPInput v) st =
     (if showAdvanced st then st\<lparr>topP := handleNumberInput pI pF v True\<rparr> else st)"
| "form_step pI pF (MaxTokensInput v) st =
     (if showAdvanced st then st\<lparr>maxTokens := handleNumberInput pI pF v False\<rparr> else st)"
| "form_step pI pF (TimeoutInput v) st =
     (if showAdvanced st then st\<lparr>timeout := handleNumberInput pI pF v False\<rparr> else st)"
| "form_step pI pF (EpochsInput v) st =
     (if showAdvanced st then st\<lparr>epochs := handleNumberInput pI pF v False\<rparr> else st)"
| "form_step pI pF (MaxConnectionsInput v) st =
     (if showAdvanced st then st\<lparr>maxConnections := handleNumberInput pI pF v False\<rparr> else st)"

text \<open>
  \<^verbatim>\<open>handleSubmit\<close>: \<open>None\<close> where it returns early, otherwise the config it passes to
  \<^verbatim>\<open>onSubmit\<close>. The limit is always copied; an advanced setting is copied when it is
  not \<^verbatim>\<open>undefined\<close>, which leaves the property undefined otherwise.
\<close>

definition handleSubmit :: "RunFormState \<Rightarrow> RunConfig option" where
  "handleSubmit st =
     (let finalModel = (if model st = ''custom'' then customModel st else model st)
      in if benchmark st = [] \<or> finalModel = [] then None
         else Some \<lparr>schema_version = Undefined, benchmark = benchmark st, model = finalModel,
                    limit = limit st, temperature = temperature st, top_p = topP st,
                    max_tokens = maxTokens st, timeout = timeout st, epochs = epochs st,
                    max_connections = maxConnections st\<rparr>)"

text \<open>
  The \<^verbatim>\<open>min\<close> and \<^verbatim>\<open>max\<close> attributes of the number inputs the form renders. The
  inputs of the advanced settings are rendered only while \<^verbatim>\<open>showAdvanced\<close> holds; an
  input shows \<^verbatim>\<open>value ?? ''\<close>, so it is empty, with no value to check, for
  \<^verbatim>\<open>undefined\<close> and \<^verbatim>\<open>null\<close>. A number input also has a
  \<^verbatim>\<open>step\<close> (0.1 for the temperature, 0.05 for \<^verbatim>\<open>top_p\<close>, 1 otherwise), by
  which the browser refuses further values within the range; the step is left out, so
  that what is refused here the browser refuses.
\<close>

fun in_range :: "number \<Rightarrow> number \<Rightarrow> number optional \<Rightarrow> bool" where
  "in_range lo hi (Value x) = (lo \<le> x \<and> x \<le> hi)"
| "in_range lo hi v = True"

definition rendered_inputs_in_range :: "RunFormState \<Rightarrow> bool" where
  "rendered_inputs_in_range st =
     (in_range 1 10000 (limit st) \<and>
      (if showAdvanced st then
         in_range 0 2 (temperature st) \<and> in_range 0 1 (topP st) \<and>
         in_range 1 128000 (maxTokens st) \<and> in_range 1 3600 (timeout st) \<and>
         in_range 1 100 (epochs st) \<and> in_range 1 100 (maxConnections st)
       else True))"

text \<open>
  Submitting the form. The form has no \<^verbatim>\<open>noValidate\<close>, so the browser validates the
  inputs it finds in the form first and dispatches the submit event, which runs
  \<^verbatim>\<open>handleSubmit\<close>, only when each is within its \<^verbatim>\<open>min\<close> and \<^verbatim>\<open>max\<close>.
\<close>

definition submit :: "RunFormState \<Rightarrow> RunConfig option" where
  "submit st = (if rendered_inputs_in_range st then handleSubmit st else None)"

text \<open>
  The bounds of the submission boundary, in the specification's words:
  \<^verbatim>\<open>limit?: int>0, temperature?: float[0,2], top_p?: float[0,1], max_tokens?: int>0,
  timeout?: int>0, epochs?: int>0, max_connections?: int>0\<close>. A parameter that is left out
  has nothing to bound.
\<close>

fun positive :: "number optional \<Rightarrow> bool" where
  "positive (Value x) = (0 < x)"
| "positive v = True"

definition spec_bounds :: "RunConfig \<Rightarrow> bool" where
  "spec_bounds c =
     (positive (RunConfig.limit c) \<and> in_range 0 2 (RunConfig.temperature c) \<and>
      in_range 0 1 (top_p c) \<and> positive (max_tokens c) \<and> positive (RunConfig.timeout c) \<and>
      positive (RunConfig.epochs c) \<and> positive (max_connections c))"

section \<open>The run state machine of the specification\<close>

text \<open>
  Modelled from the spec: the states of a run (section 4.3). The backend that owns the
  state machine is not among the sources; only its HTTP interface is, through the client.
\<close>

datatype run_state = queued | running | completed | failed | canceled


text \<open>
  Modelled from the spec: the part of a RunRecord (section 3) the state machine writes;
  the backend's record store is missing. Timestamps are clock readings.
\<close>

record RunRecord =
  run_id :: string
  status :: run_state
  started_at :: "nat option"
  finished_at :: "nat option"
  exit_code :: "int option"
  error :: "string option"













section \<open>Properties of the event subscription\<close>

subsection \<open>Terminal events\<close>

lemma run_events_closed: "closed es \<Longrightarrow> run_events hs inputs es = es"
  by (cases inputs) simp_all

lemma run_events_append:
  "run_events hs (xs @ ys) es = run_events hs ys (run_events hs xs es)"
  by (induction xs arbitrary: es) (simp_all add: run_events_closed)

lemma try_block_terminal:
  "returns_on h d \<Longrightarrow>
   try_block h k True (Some d) es =
     (Returns, es\<lparr>closed := True,
        invocations := invocations es @ (case h of None \<Rightarrow> [] | Some f \<Rightarrow> [Invoked k d])\<rparr>)"
  by (cases h) (simp_all add: try_block_def call_optional_def returns_on_def)

lemma deliver_terminal:
  assumes "map_of event_names name = Some k" "name \<in> set terminal_names"
    and "returns_on (handler_of hs k) d"
  shows "deliver hs (Message name (Some d)) es =
     es\<lparr>closed := True,
        invocations := invocations es @ (case handler_of hs k of None \<Rightarrow> [] | Some f \<Rightarrow> [Invoked k d])\<rparr>"
proof -
  from assms(2) consider "name = ''completed''" | "name = ''failed''" | "name = ''canceled''"
    by (auto simp: terminal_names_def)
  then show ?thesis
  proof cases
    case 1
    with assms(1) have k: "k = OnCompleted" by (simp add: event_names_def)
    show ?thesis using assms(3) unfolding 1 k
      by (simp add: listeners_def completed_listener_def try_block_terminal catch_clause_def)
  next
    case 2
    with assms(1) have k: "k = OnFailed" by (simp add: event_names_def)
    show ?thesis using assms(3) unfolding 2 k
      by (simp add: listeners_def failed_listener_def try_block_terminal catch_clause_def)
  next
    case 3
    with assms(1) have k: "k = OnCanceled" by (simp add: event_names_def)
    show ?thesis using assms(3) unfolding 3 k
      by (simp add: listeners_def canceled_listener_def try_block_terminal catch_clause_def)
  qed
qed

text \<open>
  Claim C1, as the client has it. A terminal event (\<^verbatim>\<open>completed\<close>, \<^verbatim>\<open>failed\<close> or
  \<^verbatim>\<open>canceled\<close>) that arrives while the connection is open, whose data parses and whose
  handler is absent or returns, is the last event whose handler is invoked: the connection
  is closed right after the handler, and whatever the stream sends afterwards reaches no
  handler. The subscription ends in the state it had before the event, closed, with the
  one invocation of the terminal handler added.
\<close>

theorem terminal_event_is_last:
  assumes "map_of event_names name = Some k" "name \<in> set terminal_names"
    and "returns_on (handler_of hs k) d"
    and "\<not> closed (subscribeToRunEvents hs before)"
  shows "subscribeToRunEvents hs (before @ Message name (Some d) # after) =
           (subscribeToRunEvents hs before)\<lparr>closed := True,
              invocations := invocations (subscribeToRunEvents hs before) @
                (case handler_of hs k of None \<Rightarrow> [] | Some f \<Rightarrow> [Invoked k d])\<rparr>"
proof -
  let ?s = "run_events hs before new_EventSource"
  let ?t = "?s\<lparr>closed := True, invocations := invocations ?s @
                (case handler_of hs k of None \<Rightarrow> [] | Some f \<Rightarrow> [Invoked k d])\<rparr>"
  have open_s: "\<not> closed ?s"
    using assms(4) unfolding subscribeToRunEvents_def .
  have step: "deliver hs (Message name (Some d)) ?s = ?t"
    by (rule deliver_terminal[OF assms(1-3)])
  have "run_events hs (before @ Message name (Some d) # after) new_EventSource
      = run_events hs (Message name (Some d) # after) ?s"
    by (simp only: run_events_append)
  also have "\<dots> = run_events hs after (deliver hs (Message name (Some d)) ?s)"
    using open_s by (simp only: run_events.simps if_False)
  also have "\<dots> = run_events hs after ?t"
    by (simp only: step)
  also have "\<dots> = ?t"
    by (rule run_events_closed) simp
  finally show ?thesis
    unfolding subscribeToRunEvents_def .
qed

text \<open>
  The theorem at a stream with a status event before and after a completed event: the
  second status event reaches no handler.
\<close>

theorem terminal_event_is_last_witness:
  "map_of event_names ''completed'' = Some OnCompleted \<and> ''completed'' \<in> set terminal_names \<and>
   returns_on (handler_of \<lparr>onStatus = Some (\<lambda>d. Returns), onLogLine = None, onProgress = None,
       onCompleted = Some (\<lambda>d. Returns),
       onFailed = None, onCanceled = None, onHeartbeat = None,
       onError = Some (\<lambda>e. Returns)\<rparr> OnCompleted) (0::nat) \<and>
   \<not> closed (subscribeToRunEvents \<lparr>onStatus = Some (\<lambda>d. Returns), onLogLine = None, onProgress = None,
       onCompleted = Some (\<lambda>d. Returns),
       onFailed = None, onCanceled = None, onHeartbeat = None,
       onError = Some (\<lambda>e. Returns)\<rparr> [Message ''status'' (Some (1::nat))]) \<and>
   subscribeToRunEvents \<lparr>onStatus = Some (\<lambda>d. Returns), onLogLine = None, onProgress = None,
       onCompleted = Some (\<lambda>d. Returns),
       onFailed = None, onCanceled = None, onHeartbeat = None,
       onError = Some (\<lambda>e. Returns)\<rparr>
     ([Message ''status'' (Some 1)] @ Message ''completed'' (Some 0) # [Message ''status'' (Some 2)]) =
     \<lparr>closed = True, invocations = [Invoked OnStatus 1, Invoked OnCompleted 0]\<rparr>"
  using terminal_event_is_last[of "''completed''" OnCompleted "\<lparr>onStatus = Some (\<lambda>d. Returns), onLogLine = None, onProgress = None,
       onCompleted = Some (\<lambda>d. Returns),
       onFailed = None, onCanceled = None, onHeartbeat = None,
       onError = Some (\<lambda>e. Returns)\<rparr>" "0::nat"
     "[Message ''status'' (Some 1)]" "[Message ''status'' (Some 2)]"]
  by (simp add: event_names_def terminal_names_def returns_on_def subscribeToRunEvents_def
        new_EventSource_def listeners_def completed_listener_def status_listener_def
        log_line_listener_def try_block_def catch_clause_def call_onError_def call_optional_def)

text \<open>
  Without the two conditions the connection stays open after a terminal event. A completed
  event whose data does not parse is reported to \<^verbatim>\<open>onError\<close> from the
  \<^verbatim>\<open>catch\<close> clause, which does not close; so is a completed event whose handler
  throws. In both streams the status handler runs for the event that follows.
\<close>

theorem terminal_event_not_last_counterexample:
  "subscribeToRunEvents \<lparr>onStatus = Some (\<lambda>d. Returns), onLogLine = None, onProgress = None,
       onCompleted = Some (\<lambda>d. Returns),
       onFailed = None, onCanceled = None, onHeartbeat = None,
       onError = Some (\<lambda>e. Returns)\<rparr>
     [Message ''completed'' None, Message ''status'' (Some (1::nat))] =
     \<lparr>closed = False, invocations = [InvokedOnError SyntaxError, Invoked OnStatus 1]\<rparr> \<and>
   subscribeToRunEvents \<lparr>onStatus = Some (\<lambda>d. Returns), onLogLine = None, onProgress = None,
       onCompleted = Some (\<lambda>d. ThrowsError (Error ''boom'')),
       onFailed = None, onCanceled = None, onHeartbeat = None,
       onError = Some (\<lambda>e. Returns)\<rparr>
     [Message ''completed'' (Some (0::nat)), Message ''status'' (Some 1)] =
     \<lparr>closed = False,
      invocations = [Invoked OnCompleted 0, InvokedOnError (Error ''boom''), Invoked OnStatus 1]\<rparr>"
  by (simp add: subscribeToRunEvents_def new_EventSource_def listeners_def
        completed_listener_def status_listener_def log_line_listener_def try_block_def
        catch_clause_def call_onError_def call_optional_def)

subsection \<open>The kinds of events\<close>

lemma try_block_invocations:
  "invocations (snd (try_block h k c data es)) = invocations es @
     (case (h, data) of (Some f, Some d) \<Rightarrow> [Invoked k d] | _ \<Rightarrow> [])"
proof (cases data)
  case None
  then show ?thesis by (cases h) (simp_all add: try_block_def)
next
  case (Some d)
  show ?thesis
  proof (cases h)
    case None
    then show ?thesis by (simp add: Some try_block_def call_optional_def)
  next
    case f: (Some f)
    show ?thesis by (cases "f d") (simp_all add: Some f try_block_def call_optional_def)
  qed
qed

lemma call_onError_invocations:
  "invocations (snd (call_onError hs err es)) =
     invocations es @ (case onError hs of None \<Rightarrow> [] | Some f \<Rightarrow> [InvokedOnError err])"
  by (cases "onError hs") (simp_all add: call_onError_def)

lemma catch_clause_invocations:
  "\<exists>errs. invocations (catch_clause hs label (r, es)) = invocations es @ map InvokedOnError errs"
proof (cases r)
  case Returns
  have "invocations (catch_clause hs label (r, es)) = invocations es @ map InvokedOnError []"
    by (simp add: Returns catch_clause_def)
  then show ?thesis by (rule exI)
next
  case (ThrowsError err)
  have "invocations (catch_clause hs label (r, es)) =
      invocations es @ map InvokedOnError (case onError hs of None \<Rightarrow> [] | Some f \<Rightarrow> [err])"
    by (cases "onError hs") (simp_all add: ThrowsError catch_clause_def call_onError_invocations)
  then show ?thesis by (rule exI)
next
  case ThrowsOther
  have "invocations (catch_clause hs label (r, es)) =
      invocations es @ map InvokedOnError
        (case onError hs of None \<Rightarrow> [] | Some f \<Rightarrow> [Error (''Failed to parse '' @ label @ '' event'')])"
    by (cases "onError hs") (simp_all add: ThrowsOther catch_clause_def call_onError_invocations)
  then show ?thesis by (rule exI)
qed

lemma listener_invocations:
  "\<exists>errs. invocations (catch_clause hs label (try_block h k c data es)) =
     invocations es @ (case (h, data) of (Some f, Some d) \<Rightarrow> [Invoked k d] | _ \<Rightarrow> [])
       @ map InvokedOnError errs"
proof -
  obtain r es' where t: "try_block h k c data es = (r, es')"
    by (cases "try_block h k c data es")
  from catch_clause_invocations[of hs label r es'] obtain errs where
    "invocations (catch_clause hs label (r, es')) = invocations es' @ map InvokedOnError errs" ..
  moreover have "invocations es' = invocations es @
     (case (h, data) of (Some f, Some d) \<Rightarrow> [Invoked k d] | _ \<Rightarrow> [])"
    using try_block_invocations[of h k c data es] by (simp add: t)
  ultimately have "invocations (catch_clause hs label (try_block h k c data es)) =
     invocations es @ (case (h, data) of (Some f, Some d) \<Rightarrow> [Invoked k d] | _ \<Rightarrow> [])
       @ map InvokedOnError errs"
    by (simp add: t)
  then show ?thesis by (rule exI)
qed

lemma event_names_not_error: "map_of event_names name = Some k \<Longrightarrow> name \<noteq> ''error''"
proof
  assume "map_of event_names name = Some k" "name = ''error''"
  then show False by (simp add: event_names_def)
qed

lemma map_of_listeners:
  "map_of (listeners hs) name =
     (case map_of event_names name of
        None \<Rightarrow> None
      | Some k \<Rightarrow> Some
         (case k of
            OnStatus \<Rightarrow> status_listener hs | OnLogLine \<Rightarrow> log_line_listener hs
          | OnProgress \<Rightarrow> progress_listener hs | OnCompleted \<Rightarrow> completed_listener hs
          | OnFailed \<Rightarrow> failed_listener hs | OnCanceled \<Rightarrow> canceled_listener hs
          | OnHeartbeat \<Rightarrow> heartbeat_listener hs))"
  by (simp add: listeners_def event_names_def)

lemma deliver_listener:
  "map_of event_names name = Some k \<Longrightarrow>
   deliver hs (Message name data) es =
     (case k of
            OnStatus \<Rightarrow> status_listener hs | OnLogLine \<Rightarrow> log_line_listener hs
          | OnProgress \<Rightarrow> progress_listener hs | OnCompleted \<Rightarrow> completed_listener hs
          | OnFailed \<Rightarrow> failed_listener hs | OnCanceled \<Rightarrow> canceled_listener hs
          | OnHeartbeat \<Rightarrow> heartbeat_listener hs) data es"
  using event_names_not_error[of name k] by (simp add: map_of_listeners)

lemma deliver_message_invocations:
  assumes "map_of event_names name = Some k"
  shows "\<exists>errs. invocations (deliver hs (Message name data) es) =
     invocations es @ (case (handler_of hs k, data) of (Some f, Some d) \<Rightarrow> [Invoked k d] | _ \<Rightarrow> [])
       @ map InvokedOnError errs"
proof (cases k)
  case OnStatus
  show ?thesis unfolding deliver_listener[OF assms] OnStatus
    using listener_invocations[of hs "''status''" "onStatus hs" OnStatus False data es]
    by (simp add: status_listener_def)
next
  case OnLogLine
  show ?thesis unfolding deliver_listener[OF assms] OnLogLine
    using listener_invocations[of hs "''log_line''" "onLogLine hs" OnLogLine False data es]
    by (simp add: log_line_listener_def)
next
  case OnProgress
  show ?thesis unfolding deliver_listener[OF assms] OnProgress
    using listener_invocations[of hs "''progress''" "onProgress hs" OnProgress False data es]
    by (simp add: progress_listener_def)
next
  case OnCompleted
  show ?thesis unfolding deliver_listener[OF assms] OnCompleted
    using listener_invocations[of hs "''completed''" "onCompleted hs" OnCompleted True data es]
    by (simp add: completed_listener_def)
next
  case OnFailed
  show ?thesis unfolding deliver_listener[OF assms] OnFailed
    using listener_invocations[of hs "''failed''" "onFailed hs" OnFailed True data es]
    by (simp add: failed_listener_def)
next
  case OnCanceled
  show ?thesis unfolding deliver_listener[OF assms] OnCanceled
    using listener_invocations[of hs "''canceled''" "onCanceled hs" OnCanceled True data es]
    by (simp add: canceled_listener_def)
next
  case OnHeartbeat
  have "invocations (deliver hs (Message name data) es) =
     invocations es @ (case (handler_of hs k, data) of (Some f, Some d) \<Rightarrow> [Invoked k d] | _ \<Rightarrow> [])
       @ map InvokedOnError []"
    unfolding deliver_listener[OF assms] OnHeartbeat
    by (simp add: heartbeat_listener_def try_block_invocations)
  then show ?thesis by (rule exI)
qed

lemma deliver_unknown:
  "map_of event_names name = None \<Longrightarrow> name \<noteq> ''error'' \<Longrightarrow>
   deliver hs (Message name data) es = es"
  by (simp add: map_of_listeners)

lemma onerror_invocations:
  "invocations (onerror hs es) =
     invocations es @
       (case onError hs of None \<Rightarrow> [] | Some g \<Rightarrow> [InvokedOnError (Error ''SSE connection error'')])"
proof (cases "onError hs")
  case None
  then show ?thesis by (simp add: onerror_def call_onError_def)
next
  case (Some g)
  then show ?thesis
    by (cases "g (Error ''SSE connection error'')") (simp_all add: onerror_def call_onError_def)
qed

lemma onerror_returns:
  "onError hs = Some g \<Longrightarrow> g (Error ''SSE connection error'') = Returns \<Longrightarrow>
   onerror hs es =
     es\<lparr>closed := True,
        invocations := invocations es @ [InvokedOnError (Error ''SSE connection error'')]\<rparr>"
  by (simp add: onerror_def call_onError_def)

lemma required_string_iff: "(required_string x = Some s) = (x = Some (JString s))"
  by (cases x rule: required_string.cases) auto

lemma required_number_iff: "(required_number x = Some n) = (x = Some (JNumber n))"
  by (cases x rule: required_number.cases) auto

lemma nullable_string_iff:
  "(nullable_string x = Some y) = (x = Some (case y of None \<Rightarrow> JNull | Some t \<Rightarrow> JString t))"
  by (cases x rule: nullable_string.cases; cases y) auto

lemma optional_string_iff: "(optional_string x = Some y) = (x = map_option JString y)"
  by (cases x rule: optional_string.cases; cases y) auto

lemma required_stream_iff:
  "(required_stream x = Some t) =
     (x = Some (JString (case t of stdout \<Rightarrow> ''stdout'' | stderr \<Rightarrow> ''stderr'')))"
  by (cases x rule: required_stream.cases; cases t) auto

lemma as_SSEStatusEvent_iff:
  "(as_SSEStatusEvent v = Some e) =
     (field v ''status'' = Some (JString (SSEStatusEvent.status e)) \<and>
      field v ''timestamp'' = Some (JString (SSEStatusEvent.timestamp e)))"
  by (cases e)
     (auto simp: as_SSEStatusEvent_def required_string_iff[symmetric] split: option.splits)

lemma as_SSELogLineEvent_iff:
  "(as_SSELogLineEvent v = Some e) =
     (field v ''stream'' =
        Some (JString (case stream e of stdout \<Rightarrow> ''stdout'' | stderr \<Rightarrow> ''stderr'')) \<and>
      field v ''line'' = Some (JString (line e)))"
proof (cases e)
  case (fields s l)
  have "(as_SSELogLineEvent v = Some \<lparr>stream = s, line = l\<rparr>) =
      (required_stream (field v ''stream'') = Some s \<and> required_string (field v ''line'') = Some l)"
    by (auto simp: as_SSELogLineEvent_def split: option.splits)
  then show ?thesis
    by (simp add: fields required_stream_iff required_string_iff)
qed

lemma as_SSEProgressEvent_iff:
  "(as_SSEProgressEvent v = Some e) =
     (field v ''current'' = Some (JNumber (current e)) \<and>
      field v ''total'' = Some (JNumber (total e)) \<and>
      field v ''percentage'' = Some (JNumber (percentage e)) \<and>
      field v ''message'' = map_option JString (message e))"
  by (cases e)
     (auto simp: as_SSEProgressEvent_def required_number_iff[symmetric]
        optional_string_iff[symmetric] split: option.splits)

lemma as_SSECompletedEvent_iff:
  "(as_SSECompletedEvent v = Some e) =
     (field v ''exit_code'' = Some (JNumber (SSECompletedEvent.exit_code e)) \<and>
      field v ''finished_at'' =
        Some (case SSECompletedEvent.finished_at e of None \<Rightarrow> JNull | Some t \<Rightarrow> JString t))"
  by (cases e)
     (auto simp: as_SSECompletedEvent_def required_number_iff[symmetric]
        nullable_string_iff[symmetric] split: option.splits)

lemma as_SSEFailedEvent_iff:
  "(as_SSEFailedEvent v = Some e) =
     (field v ''exit_code'' = Some (JNumber (SSEFailedEvent.exit_code e)) \<and>
      field v ''error'' =
        Some (case SSEFailedEvent.error e of None \<Rightarrow> JNull | Some t \<Rightarrow> JString t) \<and>
      field v ''finished_at'' =
        Some (case SSEFailedEvent.finished_at e of None \<Rightarrow> JNull | Some t \<Rightarrow> JString t))"
  by (cases e)
     (auto simp: as_SSEFailedEvent_def required_number_iff[symmetric]
        nullable_string_iff[symmetric] split: option.splits)

lemma as_SSECanceledEvent_iff:
  "(as_SSECanceledEvent v = Some e) =
     (field v ''finished_at'' =
        Some (case SSECanceledEvent.finished_at e of None \<Rightarrow> JNull | Some t \<Rightarrow> JString t))"
  by (cases e)
     (auto simp: as_SSECanceledEvent_def nullable_string_iff[symmetric] split: option.splits)

lemma as_SSEHeartbeatEvent_iff:
  "(as_SSEHeartbeatEvent v = Some e) =
     (field v ''timestamp'' = Some (JString (SSEHeartbeatEvent.timestamp e)))"
  by (cases e)
     (auto simp: as_SSEHeartbeatEvent_def required_string_iff[symmetric] split: option.splits)

text \<open>
  Claim C6, as the client has it. \<^verbatim>\<open>subscribeToRunEvents\<close> registers listeners for
  exactly the seven names status, log_line, progress, completed, failed, canceled and
  heartbeat. A message under one of these names whose data parses invokes the handler of
  that name, when there is one, with the parsed data, and a handler is invoked only by a
  message of its own name. There is an eighth kind of event the client handles: an event
  named error, from the server or the connection, goes to \<^verbatim>\<open>eventSource.onerror\<close>,
  which calls \<^verbatim>\<open>onError\<close> and closes the connection. A message of any other name is
  ignored; nothing in the client limits what the channel carries. The payloads are read
  as the interfaces declare them: status (status, timestamp: strings), log_line (stream:
  stdout or stderr, line: string), progress (current, total, percentage: numbers, message:
  an optional string), completed (exit_code: number, finished_at: string or null), failed
  (exit_code: number, required; error and finished_at: string or null), canceled
  (finished_at: string or null), heartbeat (timestamp: string).
\<close>

theorem seven_listeners_and_onerror:
  "map fst (listeners hs) = [''status'', ''log_line'', ''progress'', ''completed'', ''failed'', ''canceled'', ''heartbeat''] \<and>
   map fst event_names = map fst (listeners hs) \<and>
   (map_of event_names name = Some k \<longrightarrow> handler_of hs k = Some f \<longrightarrow>
      (\<exists>errs. invocations (deliver hs (Message name (Some d)) es) =
         invocations es @ Invoked k d # map InvokedOnError errs)) \<and>
   (Invoked k' d' \<in> set (invocations (deliver hs (Message name data) es)) \<longrightarrow>
      Invoked k' d' \<notin> set (invocations es) \<longrightarrow>
      map_of event_names name = Some k' \<and> data = Some d' \<and> handler_of hs k' \<noteq> None) \<and>
   deliver hs (Message ''error'' data) es = onerror hs es \<and>
   (onError hs = Some g \<longrightarrow> g (Error ''SSE connection error'') = Returns \<longrightarrow>
      deliver hs (Message ''error'' data) es =
        es\<lparr>closed := True,
           invocations := invocations es @ [InvokedOnError (Error ''SSE connection error'')]\<rparr>) \<and>
   (name \<notin> set (map fst (listeners hs)) \<longrightarrow> name \<noteq> ''error'' \<longrightarrow>
      deliver hs (Message name data) es = es) \<and>
   (as_SSEStatusEvent v = Some status_event) =
     (field v ''status'' = Some (JString (SSEStatusEvent.status status_event)) \<and>
      field v ''timestamp'' = Some (JString (SSEStatusEvent.timestamp status_event))) \<and>
   (as_SSELogLineEvent v = Some log_line_event) =
     (field v ''stream'' =
        Some (JString (case stream log_line_event of stdout \<Rightarrow> ''stdout'' | stderr \<Rightarrow> ''stderr'')) \<and>
      field v ''line'' = Some (JString (line log_line_event))) \<and>
   (as_SSEProgressEvent v = Some progress_event) =
     (field v ''current'' = Some (JNumber (current progress_event)) \<and>
      field v ''total'' = Some (JNumber (total progress_event)) \<and>
      field v ''percentage'' = Some (JNumber (percentage progress_event)) \<and>
      field v ''message'' = map_option JString (message progress_event)) \<and>
   (as_SSECompletedEvent v = Some completed_event) =
     (field v ''exit_code'' = Some (JNumber (SSECompletedEvent.exit_code completed_event)) \<and>
      field v ''finished_at'' =
        Some (case SSECompletedEvent.finished_at completed_event of
                None \<Rightarrow> JNull | Some t \<Rightarrow> JString t)) \<and>
   (as_SSEFailedEvent v = Some failed_event) =
     (field v ''exit_code'' = Some (JNumber (SSEFailedEvent.exit_code failed_event)) \<and>
      field v ''error'' =
        Some (case SSEFailedEvent.error failed_event of None \<Rightarrow> JNull | Some t \<Rightarrow> JString t) \<and>
      field v ''finished_at'' =
        Some (case SSEFailedEvent.finished_at failed_event of
                None \<Rightarrow> JNull | Some t \<Rightarrow> JString t)) \<and>
   (as_SSECanceledEvent v = Some canceled_event) =
     (field v ''finished_at'' =
        Some (case SSECanceledEvent.finished_at canceled_event of
                None \<Rightarrow> JNull | Some t \<Rightarrow> JString t)) \<and>
   (as_SSEHeartbeatEvent v = Some heartbeat_event) =
     (field v ''timestamp'' = Some (JString (SSEHeartbeatEvent.timestamp heartbeat_event)))"
proof -
  have names: "map fst (listeners hs) = [''status'', ''log_line'', ''progress'', ''completed'', ''failed'', ''canceled'', ''heartbeat'']"
    by (simp add: listeners_def)
  have same: "map fst event_names = map fst (listeners hs)"
    by (simp add: listeners_def event_names_def)
  have routed: "map_of event_names name = Some k \<longrightarrow> handler_of hs k = Some f \<longrightarrow>
      (\<exists>errs. invocations (deliver hs (Message name (Some d)) es) =
         invocations es @ Invoked k d # map InvokedOnError errs)"
  proof (intro impI)
    assume that: "map_of event_names name = Some k" "handler_of hs k = Some f"
    show "\<exists>errs. invocations (deliver hs (Message name (Some d)) es) =
       invocations es @ Invoked k d # map InvokedOnError errs"
      using deliver_message_invocations[OF that(1), of hs "Some d" es] that(2) by simp
  qed
  have only: "Invoked k' d' \<in> set (invocations (deliver hs (Message name data) es)) \<longrightarrow>
      Invoked k' d' \<notin> set (invocations es) \<longrightarrow>
      map_of event_names name = Some k' \<and> data = Some d' \<and> handler_of hs k' \<noteq> None"
  proof (intro impI)
    assume a: "Invoked k' d' \<in> set (invocations (deliver hs (Message name data) es))"
      and b: "Invoked k' d' \<notin> set (invocations es)"
    show "map_of event_names name = Some k' \<and> data = Some d' \<and> handler_of hs k' \<noteq> None"
    proof (cases "name = ''error''")
      case True
      have "Invoked k' d' \<notin> set (invocations (onerror hs es))"
        using b by (cases "onError hs") (simp_all add: onerror_invocations)
      with a True show ?thesis by simp
    next
      case False
      show ?thesis
      proof (cases "map_of event_names name")
        case None
        with a b False show ?thesis by (simp add: deliver_unknown del: deliver.simps)
      next
        case (Some k)
        from deliver_message_invocations[OF Some, of hs data es] obtain errs where
          e: "invocations (deliver hs (Message name data) es) =
            invocations es @
              (case (handler_of hs k, data) of (Some f, Some d) \<Rightarrow> [Invoked k d] | _ \<Rightarrow> [])
              @ map InvokedOnError errs" by blast
        show ?thesis
        proof (cases "handler_of hs k")
          case None
          with a b show ?thesis unfolding e by auto
        next
          case f: (Some f)
          show ?thesis
          proof (cases data)
            case None
            with a b show ?thesis unfolding e by (auto simp: f)
          next
            case d: (Some d)
            with a b show ?thesis unfolding e using Some by (auto simp: f)
          qed
        qed
      qed
    qed
  qed
  have err: "deliver hs (Message ''error'' data) es = onerror hs es"
    by simp
  have err_returns: "onError hs = Some g \<longrightarrow> g (Error ''SSE connection error'') = Returns \<longrightarrow>
      deliver hs (Message ''error'' data) es =
        es\<lparr>closed := True,
           invocations := invocations es @ [InvokedOnError (Error ''SSE connection error'')]\<rparr>"
    by (simp add: onerror_returns)
  have unknown: "name \<notin> set (map fst (listeners hs)) \<longrightarrow> name \<noteq> ''error'' \<longrightarrow>
      deliver hs (Message name data) es = es"
  proof (intro impI)
    assume that: "name \<notin> set (map fst (listeners hs))" "name \<noteq> ''error''"
    from that(1) have "map_of (listeners hs) name = None"
      by (simp add: map_of_eq_None_iff)
    with that(2) show "deliver hs (Message name data) es = es" by simp
  qed
  note shapes = as_SSEStatusEvent_iff[of v status_event] as_SSELogLineEvent_iff[of v log_line_event]
    as_SSEProgressEvent_iff[of v progress_event] as_SSECompletedEvent_iff[of v completed_event]
    as_SSEFailedEvent_iff[of v failed_event] as_SSECanceledEvent_iff[of v canceled_event]
    as_SSEHeartbeatEvent_iff[of v heartbeat_event]
  from names same routed only err err_returns unknown shapes show ?thesis
    by (intro conjI)
qed

text \<open>
  The theorem at handlers for status, progress and errors: a progress message invokes the
  progress handler, an error event closes the connection, a message named ping does nothing.
\<close>

theorem seven_listeners_and_onerror_witness:
  "map_of event_names ''progress'' = Some OnProgress \<and>
   handler_of \<lparr>onStatus = Some (\<lambda>d. Returns), onLogLine = None, onProgress = Some (\<lambda>d. Returns),
       onCompleted = None,
       onFailed = None, onCanceled = None, onHeartbeat = None,
       onError = Some (\<lambda>e. Returns)\<rparr> OnProgress = Some (\<lambda>d. Returns) \<and>
   invocations (deliver \<lparr>onStatus = Some (\<lambda>d. Returns), onLogLine = None, onProgress = Some (\<lambda>d. Returns),
       onCompleted = None,
       onFailed = None, onCanceled = None, onHeartbeat = None,
       onError = Some (\<lambda>e. Returns)\<rparr> (Message ''progress'' (Some (7::nat))) new_EventSource) =
     [Invoked OnProgress 7] \<and>
   Invoked OnProgress (7::nat) \<notin> set (invocations new_EventSource) \<and>
   onError \<lparr>onStatus = Some (\<lambda>d. Returns), onLogLine = None, onProgress = Some (\<lambda>d. Returns),
       onCompleted = None,
       onFailed = None, onCanceled = None, onHeartbeat = None,
       onError = Some (\<lambda>e. Returns)\<rparr> = Some (\<lambda>e. Returns) \<and>
   deliver \<lparr>onStatus = Some (\<lambda>d. Returns), onLogLine = None, onProgress = Some (\<lambda>d. Returns),
       onCompleted = None,
       onFailed = None, onCanceled = None, onHeartbeat = None,
       onError = Some (\<lambda>e. Returns)\<rparr> (Message ''error'' (Some (0::nat))) new_EventSource =
     \<lparr>closed = True, invocations = [InvokedOnError (Error ''SSE connection error'')]\<rparr> \<and>
   ''ping'' \<notin> set (map fst (listeners \<lparr>onStatus = Some (\<lambda>d. Returns), onLogLine = None, onProgress = Some (\<lambda>d. Returns),
       onCompleted = None,
       onFailed = None, onCanceled = None, onHeartbeat = None,
       onError = Some (\<lambda>e. Returns)\<rparr>)) \<and> ''ping'' \<noteq> ''error'' \<and>
   deliver \<lparr>onStatus = Some (\<lambda>d. Returns), onLogLine = None, onProgress = Some (\<lambda>d. Returns),
       onCompleted = None,
       onFailed = None, onCanceled = None, onHeartbeat = None,
       onError = Some (\<lambda>e. Returns)\<rparr> (Message ''ping'' (Some (0::nat))) new_EventSource = new_EventSource"
  using seven_listeners_and_onerror[of "\<lparr>onStatus = Some (\<lambda>d. Returns), onLogLine = None, onProgress = Some (\<lambda>d. Returns),
       onCompleted = None,
       onFailed = None, onCanceled = None, onHeartbeat = None,
       onError = Some (\<lambda>e. Returns)\<rparr>" "''ping''" OnProgress "\<lambda>d. Returns" "0::nat"
      new_EventSource OnProgress 7 "Some (0::nat)" "\<lambda>e. Returns"]
    seven_listeners_and_onerror[of "\<lparr>onStatus = Some (\<lambda>d. Returns), onLogLine = None, onProgress = Some (\<lambda>d. Returns),
       onCompleted = None,
       onFailed = None, onCanceled = None, onHeartbeat = None,
       onError = Some (\<lambda>e. Returns)\<rparr>" "''progress''" OnProgress "\<lambda>d. Returns" "7::nat"
      new_EventSource OnProgress 7 "Some (7::nat)" "\<lambda>e. Returns"]
  by (simp add: event_names_def new_EventSource_def listeners_def progress_listener_def
      try_block_def catch_clause_def call_optional_def onerror_def call_onError_def)

text \<open>
  Where claim C6 does not hold as the specification has it: an event named error is
  handled, by \<^verbatim>\<open>onError\<close>, and ends the subscription, so that the status message
  after it is not handled; a message named ping passes through the channel unhandled. A canceled or completed payload whose
  \<^verbatim>\<open>finished_at\<close> is null has the declared shape, and a failed payload without
  \<^verbatim>\<open>exit_code\<close> does not.
\<close>

theorem eighth_event_and_nullable_fields_counterexample:
  "subscribeToRunEvents \<lparr>onStatus = Some (\<lambda>d. Returns), onLogLine = None, onProgress = Some (\<lambda>d. Returns),
       onCompleted = None,
       onFailed = None, onCanceled = None, onHeartbeat = None,
       onError = Some (\<lambda>e. Returns)\<rparr>
     [Message ''error'' (Some (0::nat)), Message ''status'' (Some 1)] =
     \<lparr>closed = True, invocations = [InvokedOnError (Error ''SSE connection error'')]\<rparr> \<and>
   subscribeToRunEvents \<lparr>onStatus = Some (\<lambda>d. Returns), onLogLine = None, onProgress = Some (\<lambda>d. Returns),
       onCompleted = None,
       onFailed = None, onCanceled = None, onHeartbeat = None,
       onError = Some (\<lambda>e. Returns)\<rparr>
     [Message ''ping'' (Some (0::nat)), Message ''status'' (Some 1)] =
     \<lparr>closed = False, invocations = [Invoked OnStatus 1]\<rparr> \<and>
   as_SSECanceledEvent (JObject [(''finished_at'', JNull)]) =
     Some \<lparr>SSECanceledEvent.finished_at = None\<rparr> \<and>
   as_SSECompletedEvent (JObject [(''exit_code'', JNumber 0), (''finished_at'', JNull)]) =
     Some \<lparr>SSECompletedEvent.exit_code = 0, SSECompletedEvent.finished_at = None\<rparr> \<and>
   as_SSEFailedEvent
     (JObject [(''error'', JString ''spawn failed''), (''finished_at'', JString ''t2'')]) = None"
  by (simp add: subscribeToRunEvents_def new_EventSource_def listeners_def status_listener_def
      try_block_def catch_clause_def call_optional_def onerror_def call_onError_def
      as_SSECanceledEvent_def as_SSECompletedEvent_def as_SSEFailedEvent_def)

section \<open>Properties of the request helper\<close>

text \<open>
  Claim C10, as the helper has it. Given the response that \<^verbatim>\<open>fetch\<close> resolves to:
  when the response is not ok the call throws and never returns a value. The Error's
  message is the body's \<^verbatim>\<open>detail\<close> converted to a string when the body is JSON and
  that property is truthy (a non-empty string \<^verbatim>\<open>detail\<close> is the message itself), and
  \<^verbatim>\<open>Request failed: \<close> followed by the status code when the body is not JSON or
  \<^verbatim>\<open>detail\<close> is missing or falsy; a body that is the JSON \<^verbatim>\<open>null\<close> makes the
  property read throw a TypeError. When the response is ok the call returns the parsed body
  if the body is JSON, and throws the parse error otherwise.
\<close>

theorem request_outcome:
  assumes "fetch (API_BASE @ endpoint)
      (options\<lparr>headers := headers options @ [(''Content-Type'', ''application/json'')]\<rparr>) = Inr r"
  shows
   "(\<not> ok r \<longrightarrow> (\<exists>thrown. request ToString fetch endpoint options = Inl thrown)) \<and>
    (\<not> ok r \<longrightarrow> json r = Some v \<longrightarrow> get_property v ''detail'' = Inr (Some detail) \<longrightarrow>
       truthy detail \<longrightarrow>
       request ToString fetch endpoint options = Inl (Error (message_of ToString detail))) \<and>
    (\<not> ok r \<longrightarrow> json r = Some (JObject properties) \<longrightarrow>
       map_of properties ''detail'' = Some (JString s) \<longrightarrow> s \<noteq> [] \<longrightarrow>
       request ToString fetch endpoint options = Inl (Error s)) \<and>
    (\<not> ok r \<longrightarrow> json r = None \<longrightarrow>
       request ToString fetch endpoint options =
         Inl (Error (''Request failed: '' @ string_of_nat (response.status r)))) \<and>
    (\<not> ok r \<longrightarrow> json r = Some v \<longrightarrow> get_property v ''detail'' = Inr None \<longrightarrow>
       request ToString fetch endpoint options =
         Inl (Error (''Request failed: '' @ string_of_nat (response.status r)))) \<and>
    (\<not> ok r \<longrightarrow> json r = Some v \<longrightarrow> get_property v ''detail'' = Inr (Some detail) \<longrightarrow>
       \<not> truthy detail \<longrightarrow>
       request ToString fetch endpoint options =
         Inl (Error (''Request failed: '' @ string_of_nat (response.status r)))) \<and>
    (\<not> ok r \<longrightarrow> json r = Some JNull \<longrightarrow>
       request ToString fetch endpoint options = Inl TypeError) \<and>
    (ok r \<longrightarrow> json r = Some v \<longrightarrow> request ToString fetch endpoint options = Inr v) \<and>
    (ok r \<longrightarrow> json r = None \<longrightarrow> request ToString fetch endpoint options = Inl SyntaxError)"
proof -
  have 1: "\<not> ok r \<longrightarrow> (\<exists>thrown. request ToString fetch endpoint options = Inl thrown)"
    by (simp add: request_def assms split: option.split sum.split)
  have 2: "\<not> ok r \<longrightarrow> json r = Some v \<longrightarrow> get_property v ''detail'' = Inr (Some detail) \<longrightarrow>
       truthy detail \<longrightarrow>
       request ToString fetch endpoint options = Inl (Error (message_of ToString detail))"
    by (simp add: request_def assms)
  have 3: "\<not> ok r \<longrightarrow> json r = Some (JObject properties) \<longrightarrow>
       map_of properties ''detail'' = Some (JString s) \<longrightarrow> s \<noteq> [] \<longrightarrow>
       request ToString fetch endpoint options = Inl (Error s)"
    by (simp add: request_def assms)
  have 4: "\<not> ok r \<longrightarrow> json r = None \<longrightarrow>
       request ToString fetch endpoint options =
         Inl (Error (''Request failed: '' @ string_of_nat (response.status r)))"
    by (simp add: request_def assms del: string_of_nat.simps)
  have 5: "\<not> ok r \<longrightarrow> json r = Some v \<longrightarrow> get_property v ''detail'' = Inr None \<longrightarrow>
       request ToString fetch endpoint options =
         Inl (Error (''Request failed: '' @ string_of_nat (response.status r)))"
    by (simp add: request_def assms del: string_of_nat.simps)
  have 6: "\<not> ok r \<longrightarrow> json r = Some v \<longrightarrow> get_property v ''detail'' = Inr (Some detail) \<longrightarrow>
       \<not> truthy detail \<longrightarrow>
       request ToString fetch endpoint options =
         Inl (Error (''Request failed: '' @ string_of_nat (response.status r)))"
    by (simp add: request_def assms del: string_of_nat.simps)
  have 7: "\<not> ok r \<longrightarrow> json r = Some JNull \<longrightarrow>
       request ToString fetch endpoint options = Inl TypeError"
    by (simp add: request_def assms)
  have 8: "ok r \<longrightarrow> json r = Some v \<longrightarrow> request ToString fetch endpoint options = Inr v"
    by (simp add: request_def assms)
  have 9: "ok r \<longrightarrow> json r = None \<longrightarrow> request ToString fetch endpoint options = Inl SyntaxError"
    by (simp add: request_def assms)
  from 1 2 3 4 5 6 7 8 9 show ?thesis by (intro conjI)
qed

lemma string_of_nat_404: "string_of_nat 404 = ''404''"
  by code_simp
lemma string_of_nat_400: "string_of_nat 400 = ''400''"
  by code_simp

text \<open>
  The theorem at a 404 response with a \<^verbatim>\<open>detail\<close>, at a 404 response without a
  JSON body, and at an ok response.
\<close>

theorem request_outcome_witness:
  "request (\<lambda>v. ''[object Object]'')
     (\<lambda>url init. Inr \<lparr>ok = False, status = 404,
         json = Some (JObject [(''detail'', JString ''Run not found'')])\<rparr>)
     ''/runs/r1'' \<lparr>http_method = None, body = None, headers = []\<rparr> = Inl (Error ''Run not found'') \<and>
   request (\<lambda>v. ''[object Object]'')
     (\<lambda>url init. Inr \<lparr>ok = False, status = 404, json = None\<rparr>)
     ''/runs/r1'' \<lparr>http_method = None, body = None, headers = []\<rparr> =
       Inl (Error ''Request failed: 404'') \<and>
   request (\<lambda>v. ''[object Object]'')
     (\<lambda>url init. Inr \<lparr>ok = True, status = 200, json = Some (JObject [(''status'', JString ''ok'')])\<rparr>)
     ''/health'' \<lparr>http_method = None, body = None, headers = []\<rparr> =
       Inr (JObject [(''status'', JString ''ok'')])"
proof -
  let ?o = "\<lparr>http_method = None, body = None, headers = []\<rparr>"
  let ?ts = "\<lambda>v::json. ''[object Object]''"
  let ?r1 = "\<lparr>ok = False, status = 404, json = Some (JObject [(''detail'', JString ''Run not found'')])\<rparr>"
  let ?r2 = "\<lparr>ok = False, status = 404, json = None\<rparr>"
  let ?r3 = "\<lparr>ok = True, status = 200, json = Some (JObject [(''status'', JString ''ok'')])\<rparr>"
  have a: "request ?ts (\<lambda>url init. Inr ?r1) ''/runs/r1'' ?o = Inl (Error ''Run not found'')"
    using request_outcome[of "\<lambda>url init. Inr ?r1" "''/runs/r1''" ?o ?r1 ?ts
        "JObject [(''detail'', JString ''Run not found'')]" "JString ''Run not found''"
        "[(''detail'', JString ''Run not found'')]" "''Run not found''"]
    by simp
  have b: "request ?ts (\<lambda>url init. Inr ?r2) ''/runs/r1'' ?o = Inl (Error ''Request failed: 404'')"
    using request_outcome[of "\<lambda>url init. Inr ?r2" "''/runs/r1''" ?o ?r2 ?ts]
    by (simp add: string_of_nat_404 del: string_of_nat.simps)
  have c: "request ?ts (\<lambda>url init. Inr ?r3) ''/health'' ?o = Inr (JObject [(''status'', JString ''ok'')])"
    using request_outcome[of "\<lambda>url init. Inr ?r3" "''/health''" ?o ?r3 ?ts
        "JObject [(''status'', JString ''ok'')]"]
    by simp
  from a b c show ?thesis by (intro conjI)
qed

text \<open>
  A \<^verbatim>\<open>detail\<close> that is present but empty is not the message: the fallback is. A
  body that is \<^verbatim>\<open>null\<close> gives a TypeError. An ok response whose body is not JSON
  (a 204, say) makes the call throw instead of returning.
\<close>

theorem request_counterexample:
  "request (\<lambda>v. ''[object Object]'')
     (\<lambda>url init. Inr \<lparr>ok = False, status = 400, json = Some (JObject [(''detail'', JString [])])\<rparr>)
     ''/runs'' \<lparr>http_method = Some ''POST'', body = Some ''{}'', headers = []\<rparr> =
       Inl (Error ''Request failed: 400'') \<and>
   request (\<lambda>v. ''[object Object]'')
     (\<lambda>url init. Inr \<lparr>ok = False, status = 400, json = Some JNull\<rparr>)
     ''/runs'' \<lparr>http_method = Some ''POST'', body = Some ''{}'', headers = []\<rparr> = Inl TypeError \<and>
   request (\<lambda>v. ''[object Object]'')
     (\<lambda>url init. Inr \<lparr>ok = True, status = 204, json = None\<rparr>)
     ''/runs/r1/cancel'' \<lparr>http_method = Some ''POST'', body = None, headers = []\<rparr> = Inl SyntaxError"
  by (simp add: request_def string_of_nat_400 del: string_of_nat.simps)

section \<open>Properties of the run detail page\<close>

subsection \<open>Progress events\<close>

lemma foldl_onProgress:
  "foldl (\<lambda>q e. handle_onProgress e q) p events =
     p\<lparr>progress := (if events = [] then progress p else Some (last events))\<rparr>"
  by (induction events rule: rev_induct) (simp_all add: handle_onProgress_def)

text \<open>
  Claim C8. Progress snapshots are advisory and never drive state transitions: handling a
  progress event replaces the latest progress value (current, total, percentage and the
  optional message) and leaves the run record, its status included, and every other part
  of the page's state as it was. After any number of progress events the page differs from
  the page before only in holding the last snapshot.
\<close>

theorem progress_is_advisory:
  "handle_onProgress event p = p\<lparr>progress := Some event\<rparr> \<and>
   run (handle_onProgress event p) = run p \<and>
   foldl (\<lambda>q e. handle_onProgress e q) p events =
     p\<lparr>progress := (if events = [] then progress p else Some (last events))\<rparr> \<and>
   run (foldl (\<lambda>q e. handle_onProgress e q) p events) = run p"
  by (simp add: foldl_onProgress) (simp add: handle_onProgress_def)

subsection \<open>The canceled event\<close>




subsection \<open>Losing the event channel\<close>



subsection \<open>A change of status while subscribed\<close>

text \<open>
  A status event that changes the status of the run while the page is subscribed makes the
  subscribing effect run again: its cleanup closes the EventSource, its body does not
  subscribe again, as \<^verbatim>\<open>hasInitializedSSE\<close> still holds, and the polling effect sets
  no interval, as \<^verbatim>\<open>isSSEConnected\<close> still holds.
\<close>

lemma status_change_closes_subscription:
  assumes "run p = Some d" "SSEStatusEvent.status event \<noteq> RunSummary.status d"
    and "sseCleanup p" "hasInitializedSSE p" "isSSEConnected p"
  shows "closes_EventSource p (handle_onStatus event p)"
    and "after_update p (handle_onStatus event p) = (handle_onStatus event p)\<lparr>sseCleanup := False\<rparr>"
    and "isSSEConnected (after_update p (handle_onStatus event p))"
    and "polling_effect (after_update p (handle_onStatus event p)) = None"
  using assms
  by (simp_all add: closes_EventSource_def after_update_def run_status_def handle_onStatus_def
      setRun_def sse_effect_def sse_effect_cleanup_def subscribeToEvents_def polling_effect_def
      split: option.split)

subsection \<open>Log lines\<close>

lemma onLogLine_stdoutLines:
  "stdoutLines (handle_onLogLine e q) = stdoutLines q @ (if stream e = stdout then [line e] else [])"
  by (simp add: handle_onLogLine_def)

lemma onLogLine_stderrLines:
  "stderrLines (handle_onLogLine e q) = stderrLines q @ (if stream e = stderr then [line e] else [])"
  by (cases "stream e") (simp_all add: handle_onLogLine_def)

lemma foldl_onLogLine_stdout:
  "stdoutLines (foldl (\<lambda>q e. handle_onLogLine e q) p events) =
     stdoutLines p @ map line (filter (\<lambda>e. stream e = stdout) events)"
  by (induction events rule: rev_induct) (simp_all add: onLogLine_stdoutLines)

lemma foldl_onLogLine_stderr:
  "stderrLines (foldl (\<lambda>q e. handle_onLogLine e q) p events) =
     stderrLines p @ map line (filter (\<lambda>e. stream e = stderr) events)"
  by (induction events rule: rev_induct) (simp_all add: onLogLine_stderrLines)

lemma onLogLine_reads_stream_and_line:
  "stream e' = stream e \<Longrightarrow> line e' = line e \<Longrightarrow>
   handle_onLogLine e' p = handle_onLogLine e p"
  by (simp add: handle_onLogLine_def)

lemma foldl_onLogLine_map:
  assumes "\<And>e. stream (g e) = stream e" "\<And>e. line (g e) = line e"
  shows "foldl (\<lambda>q e. handle_onLogLine e q) p (map g events) =
     foldl (\<lambda>q e. handle_onLogLine e q) p events"
proof (induction events rule: rev_induct)
  case Nil
  show ?case by simp
next
  case (snoc e events)
  show ?case
    by (simp add: snoc onLogLine_reads_stream_and_line[OF assms(1) assms(2)])
qed

lemma deliver_log_line:
  "onLogLine hs = Some f \<Longrightarrow> f d = Returns \<Longrightarrow>
   deliver hs (Message ''log_line'' (Some d)) es =
     es\<lparr>invocations := invocations es @ [Invoked OnLogLine d]\<rparr>"
  by (simp add: listeners_def log_line_listener_def try_block_def call_optional_def
      catch_clause_def)

text \<open>
  Claim C2, as the client has it. The client neither requires nor reads a sequence number.
  A log_line message is handed to \<^verbatim>\<open>onLogLine\<close> whatever its payload holds. The
  page appends the line of each event to the list of its stream, in order of arrival.
  For log lines that do carry a \<^verbatim>\<open>sequence_number\<close>, as the LogLine of the
  specification does, the page ends in the same state whatever the numbers are and when
  they are taken away: it detects no gap. A log line that arrives twice is appended twice:
  it removes no duplicate.
\<close>

theorem log_line_sequence_number_unread:
  "(onLogLine hs = Some f \<longrightarrow> f d = Returns \<longrightarrow>
      deliver hs (Message ''log_line'' (Some d)) es =
        es\<lparr>invocations := invocations es @ [Invoked OnLogLine d]\<rparr>) \<and>
   stdoutLines (foldl (\<lambda>q e. handle_onLogLine e q) p events) =
     stdoutLines p @ map line (filter (\<lambda>e. stream e = stdout) events) \<and>
   stderrLines (foldl (\<lambda>q e. handle_onLogLine e q) p events) =
     stderrLines p @ map line (filter (\<lambda>e. stream e = stderr) events) \<and>
   foldl (\<lambda>q e. handle_onLogLine e q) p
       (map (\<lambda>e. e\<lparr>sequence_number := renumber e\<rparr>) numbered) =
     foldl (\<lambda>q e. handle_onLogLine e q) p numbered \<and>
   foldl (\<lambda>q e. handle_onLogLine e q) p (map SSELogLineEvent.truncate numbered) =
     foldl (\<lambda>q e. handle_onLogLine e q) p numbered \<and>
   stdoutLines (handle_onLogLine numbered_event (handle_onLogLine numbered_event p)) =
     stdoutLines p @
       (if stream numbered_event = stdout then [line numbered_event, line numbered_event] else []) \<and>
   stderrLines (handle_onLogLine numbered_event (handle_onLogLine numbered_event p)) =
     stderrLines p @
       (if stream numbered_event = stderr then [line numbered_event, line numbered_event] else [])"
proof -
  have 1: "onLogLine hs = Some f \<longrightarrow> f d = Returns \<longrightarrow>
      deliver hs (Message ''log_line'' (Some d)) es =
        es\<lparr>invocations := invocations es @ [Invoked OnLogLine d]\<rparr>"
    using deliver_log_line[of hs f d es] by blast
  have 2: "foldl (\<lambda>q e. handle_onLogLine e q) p
       (map (\<lambda>e. e\<lparr>sequence_number := renumber e\<rparr>) numbered) =
     foldl (\<lambda>q e. handle_onLogLine e q) p numbered"
    by (rule foldl_onLogLine_map) simp_all
  have 3: "foldl (\<lambda>q e. handle_onLogLine e q) p (map SSELogLineEvent.truncate numbered) =
     foldl (\<lambda>q e. handle_onLogLine e q) p numbered"
    by (rule foldl_onLogLine_map) (simp_all add: SSELogLineEvent.truncate_def)
  have 4: "stdoutLines (handle_onLogLine numbered_event (handle_onLogLine numbered_event p)) =
     stdoutLines p @
       (if stream numbered_event = stdout then [line numbered_event, line numbered_event] else [])"
    by (simp add: onLogLine_stdoutLines)
  have 5: "stderrLines (handle_onLogLine numbered_event (handle_onLogLine numbered_event p)) =
     stderrLines p @
       (if stream numbered_event = stderr then [line numbered_event, line numbered_event] else [])"
    by (simp add: onLogLine_stderrLines)
  from 1 foldl_onLogLine_stdout[of p events] foldl_onLogLine_stderr[of p events] 2 3 4 5
  show ?thesis by (intro conjI)
qed

text \<open>
  The theorem at a log_line message with a stream and a line and nothing else.
\<close>

theorem log_line_sequence_number_unread_witness:
  "onLogLine \<lparr>onStatus = None, onLogLine = Some (\<lambda>d. Returns), onProgress = None,
       onCompleted = None,
       onFailed = None, onCanceled = None, onHeartbeat = None,
       onError = None\<rparr> = Some (\<lambda>d. Returns) \<and>
   (\<lambda>d::json. Returns) (JObject [(''stream'', JString ''stdout''), (''line'', JString ''a'')]) = Returns \<and>
   deliver \<lparr>onStatus = None, onLogLine = Some (\<lambda>d. Returns), onProgress = None,
       onCompleted = None,
       onFailed = None, onCanceled = None, onHeartbeat = None,
       onError = None\<rparr>
     (Message ''log_line'' (Some (JObject [(''stream'', JString ''stdout''), (''line'', JString ''a'')]))) new_EventSource =
     \<lparr>closed = False, invocations = [Invoked OnLogLine (JObject [(''stream'', JString ''stdout''), (''line'', JString ''a'')])]\<rparr>"
proof -
  let ?hs = "\<lparr>onStatus = None, onLogLine = Some (\<lambda>d. Returns), onProgress = None,
       onCompleted = None,
       onFailed = None, onCanceled = None, onHeartbeat = None,
       onError = None\<rparr>"
  let ?d = "JObject [(''stream'', JString ''stdout''), (''line'', JString ''a'')]"
  have a: "onLogLine ?hs = Some (\<lambda>d. Returns)" by simp
  have b: "(\<lambda>d::json. Returns) ?d = Returns" by simp
  note c = log_line_sequence_number_unread[where hs = ?hs and f = "\<lambda>d. Returns" and d = ?d
      and es = new_EventSource, THEN conjunct1, rule_format, OF a b]
  have "deliver ?hs (Message ''log_line'' (Some ?d)) new_EventSource =
     \<lparr>closed = False, invocations = [Invoked OnLogLine ?d]\<rparr>"
    unfolding c by (simp add: new_EventSource_def)
  with a b show ?thesis by (intro conjI)
qed

text \<open>
  Where claim C2 does not hold as the specification has it: a log_line message without a
  \<^verbatim>\<open>sequence_number\<close> is delivered to the observer and has the declared shape of
  a log line; and of three
  numbered lines of stdout, the second a duplicate of the first and the third after a gap,
  the page shows all three.
\<close>

theorem log_line_without_sequence_number_counterexample:
  "invocations (subscribeToRunEvents \<lparr>onStatus = None, onLogLine = Some (\<lambda>d. Returns), onProgress = None,
       onCompleted = None,
       onFailed = None, onCanceled = None, onHeartbeat = None,
       onError = None\<rparr>
      [Message ''log_line'' (Some (JObject [(''stream'', JString ''stdout''), (''line'', JString ''a'')]))]) =
     [Invoked OnLogLine (JObject [(''stream'', JString ''stdout''), (''line'', JString ''a'')])] \<and>
   get_property (JObject [(''stream'', JString ''stdout''), (''line'', JString ''a'')]) ''sequence_number'' = Inr None \<and>
   as_SSELogLineEvent (JObject [(''stream'', JString ''stdout''), (''line'', JString ''a'')]) = Some \<lparr>stream = stdout, line = ''a''\<rparr> \<and>
   stdoutLines (foldl (\<lambda>q e. handle_onLogLine e q)
      \<lparr>id' = Some ''r1'', run = None, loading = False, RunDetailPage.error = None,
        stdoutLines = [], stderrLines = [], progress = None, isSSEConnected = True,
        sseCleanup = True, hasInitializedSSE = True\<rparr>
      [\<lparr>stream = stdout, line = ''a'', sequence_number = 0\<rparr>,
       \<lparr>stream = stdout, line = ''a'', sequence_number = 0\<rparr>,
       \<lparr>stream = stdout, line = ''b'', sequence_number = 5\<rparr>]) = [''a'', ''a'', ''b'']"
  by (simp add: subscribeToRunEvents_def new_EventSource_def listeners_def log_line_listener_def
      try_block_def catch_clause_def call_optional_def as_SSELogLineEvent_def
      handle_onLogLine_def)

subsection \<open>The failed event\<close>

text \<open>
  Claim C4, as the client has it. The error of a failed event may be null. Handling a
  failed event sets the status of the run to failed and its exit code, and sets the error
  of the run record to the event's error when that is a non-empty string and to undefined
  otherwise: the error of the record after a failed event is absent or non-empty, and when
  present it is the event's.
\<close>

theorem failed_error_absent_or_nonempty:
  "map_option RunSummary.status (run (handle_onFailed event p)) =
     map_option (\<lambda>prev. ''failed'') (run p) \<and>
   map_option RunDetail.exit_code (run (handle_onFailed event p)) =
     map_option (\<lambda>prev. Some (SSEFailedEvent.exit_code event)) (run p) \<and>
   map_option RunDetail.error (run (handle_onFailed event p)) =
     map_option (\<lambda>prev. or_undefined (SSEFailedEvent.error event)) (run p) \<and>
   (run (handle_onFailed event p) = Some r \<longrightarrow> RunDetail.error r = Some s \<longrightarrow>
      s \<noteq> [] \<and> SSEFailedEvent.error event = Some s)"
proof -
  have "s \<noteq> [] \<and> SSEFailedEvent.error event = Some s"
    if "run (handle_onFailed event p) = Some r" "RunDetail.error r = Some s"
  proof -
    from that(1) obtain prev where "run p = Some prev"
      and r: "r = prev\<lparr>RunSummary.status := ''failed'',
                 RunDetail.exit_code := Some (SSEFailedEvent.exit_code event),
                 RunDetail.error := or_undefined (SSEFailedEvent.error event),
                 RunSummary.finished_at := or_undefined (SSEFailedEvent.finished_at event)\<rparr>"
      by (cases "run p") (simp_all add: handle_onFailed_def setRun_def)
    from that(2) have "or_undefined (SSEFailedEvent.error event) = Some s"
      by (simp add: r)
    then show ?thesis
      by (cases "SSEFailedEvent.error event") (simp_all add: or_undefined_def split: if_splits)
  qed
  then show ?thesis
    by (simp add: handle_onFailed_def setRun_def option.map_comp comp_def)
qed

text \<open>
The theorem at a running run and a failed event with the error \<^verbatim>\<open>boom\<close>.
\<close>

theorem failed_error_absent_or_nonempty_witness:
  "run (handle_onFailed \<lparr>SSEFailedEvent.exit_code = 1, SSEFailedEvent.error = Some ''boom'', SSEFailedEvent.finished_at = Some ''t2''\<rparr>
      \<lparr>id' = Some ''r1'',
        run = Some \<lparr>RunSummary.run_id = ''r1'', RunSummary.benchmark = ''gsm8k'',
           RunSummary.model = ''groq/llama-3.1-8b-instant'', RunSummary.status = ''running'',
           RunSummary.created_at = ''t0'', RunSummary.finished_at = None,
           RunSummary.primary_metric = None, RunDetail.started_at = Some ''t1'',
           RunDetail.artifact_dir = None, RunDetail.exit_code = None, RunDetail.error = None,
           RunDetail.config = None, RunDetail.command = None, RunDetail.artifacts = [],
           RunDetail.stdout_tail = None, RunDetail.stderr_tail = None\<rparr>,
        loading = False, RunDetailPage.error = None, stdoutLines = [], stderrLines = [],
        progress = None, isSSEConnected = True, sseCleanup = True, hasInitializedSSE = True\<rparr>) =
     Some \<lparr>RunSummary.run_id = ''r1'', RunSummary.benchmark = ''gsm8k'',
           RunSummary.model = ''groq/llama-3.1-8b-instant'', RunSummary.status = ''failed'',
           RunSummary.created_at = ''t0'', RunSummary.finished_at = Some ''t2'',
           RunSummary.primary_metric = None, RunDetail.started_at = Some ''t1'',
           RunDetail.artifact_dir = None, RunDetail.exit_code = Some 1, RunDetail.error = Some ''boom'',
           RunDetail.config = None, RunDetail.command = None, RunDetail.artifacts = [],
           RunDetail.stdout_tail = None, RunDetail.stderr_tail = None\<rparr> \<and>
   RunDetail.error \<lparr>RunSummary.run_id = ''r1'', RunSummary.benchmark = ''gsm8k'',
           RunSummary.model = ''groq/llama-3.1-8b-instant'', RunSummary.status = ''failed'',
           RunSummary.created_at = ''t0'', RunSummary.finished_at = Some ''t2'',
           RunSummary.primary_metric = None, RunDetail.started_at = Some ''t1'',
           RunDetail.artifact_dir = None, RunDetail.exit_code = Some 1, RunDetail.error = Some ''boom'',
           RunDetail.config = None, RunDetail.command = None, RunDetail.artifacts = [],
           RunDetail.stdout_tail = None, RunDetail.stderr_tail = None\<rparr> = Some ''boom'' \<and>
   ''boom'' \<noteq> [] \<and>
   SSEFailedEvent.error \<lparr>SSEFailedEvent.exit_code = 1, SSEFailedEvent.error = Some ''boom'', SSEFailedEvent.finished_at = Some ''t2''\<rparr> = Some ''boom''"
  using failed_error_absent_or_nonempty[of "\<lparr>SSEFailedEvent.exit_code = 1, SSEFailedEvent.error = Some ''boom'', SSEFailedEvent.finished_at = Some ''t2''\<rparr>"
      "\<lparr>id' = Some ''r1'',
        run = Some \<lparr>RunSummary.run_id = ''r1'', RunSummary.benchmark = ''gsm8k'',
           RunSummary.model = ''groq/llama-3.1-8b-instant'', RunSummary.status = ''running'',
           RunSummary.created_at = ''t0'', RunSummary.finished_at = None,
           RunSummary.primary_metric = None, RunDetail.started_at = Some ''t1'',
           RunDetail.artifact_dir = None, RunDetail.exit_code = None, RunDetail.error = None,
           RunDetail.config = None, RunDetail.command = None, RunDetail.artifacts = [],
           RunDetail.stdout_tail = None, RunDetail.stderr_tail = None\<rparr>,
        loading = False, RunDetailPage.error = None, stdoutLines = [], stderrLines = [],
        progress = None, isSSEConnected = True, sseCleanup = True, hasInitializedSSE = True\<rparr>"
      "\<lparr>RunSummary.run_id = ''r1'', RunSummary.benchmark = ''gsm8k'',
           RunSummary.model = ''groq/llama-3.1-8b-instant'', RunSummary.status = ''failed'',
           RunSummary.created_at = ''t0'', RunSummary.finished_at = Some ''t2'',
           RunSummary.primary_metric = None, RunDetail.started_at = Some ''t1'',
           RunDetail.artifact_dir = None, RunDetail.exit_code = Some 1, RunDetail.error = Some ''boom'',
           RunDetail.config = None, RunDetail.command = None, RunDetail.artifacts = [],
           RunDetail.stdout_tail = None, RunDetail.stderr_tail = None\<rparr>" "''boom''"]
  by (simp add: handle_onFailed_def setRun_def or_undefined_def)

text \<open>
  A failed event whose error is null leaves the run failed with no error at all.
\<close>

theorem failed_without_error_counterexample:
  "map_option RunSummary.status (run (handle_onFailed \<lparr>SSEFailedEvent.exit_code = 1, SSEFailedEvent.error = None, SSEFailedEvent.finished_at = Some ''t2''\<rparr>
      \<lparr>id' = Some ''r1'',
        run = Some \<lparr>RunSummary.run_id = ''r1'', RunSummary.benchmark = ''gsm8k'',
           RunSummary.model = ''groq/llama-3.1-8b-instant'', RunSummary.status = ''running'',
           RunSummary.created_at = ''t0'', RunSummary.finished_at = None,
           RunSummary.primary_metric = None, RunDetail.started_at = Some ''t1'',
           RunDetail.artifact_dir = None, RunDetail.exit_code = None, RunDetail.error = None,
           RunDetail.config = None, RunDetail.command = None, RunDetail.artifacts = [],
           RunDetail.stdout_tail = None, RunDetail.stderr_tail = None\<rparr>,
        loading = False, RunDetailPage.error = None, stdoutLines = [], stderrLines = [],
        progress = None, isSSEConnected = True, sseCleanup = True, hasInitializedSSE = True\<rparr>)) = Some ''failed'' \<and>
   map_option RunDetail.error (run (handle_onFailed \<lparr>SSEFailedEvent.exit_code = 1, SSEFailedEvent.error = None, SSEFailedEvent.finished_at = Some ''t2''\<rparr>
      \<lparr>id' = Some ''r1'',
        run = Some \<lparr>RunSummary.run_id = ''r1'', RunSummary.benchmark = ''gsm8k'',
           RunSummary.model = ''groq/llama-3.1-8b-instant'', RunSummary.status = ''running'',
           RunSummary.created_at = ''t0'', RunSummary.finished_at = None,
           RunSummary.primary_metric = None, RunDetail.started_at = Some ''t1'',
           RunDetail.artifact_dir = None, RunDetail.exit_code = None, RunDetail.error = None,
           RunDetail.config = None, RunDetail.command = None, RunDetail.artifacts = [],
           RunDetail.stdout_tail = None, RunDetail.stderr_tail = None\<rparr>,
        loading = False, RunDetailPage.error = None, stdoutLines = [], stderrLines = [],
        progress = None, isSSEConnected = True, sseCleanup = True, hasInitializedSSE = True\<rparr>)) = Some None"
  by (simp add: handle_onFailed_def setRun_def or_undefined_def)

section \<open>Properties of the run form\<close>

text \<open>
  With the advanced settings shown, a submission that reaches \<^verbatim>\<open>onSubmit\<close> has its
  limit, temperature and \<^verbatim>\<open>top_p\<close> within the bounds of their inputs.
\<close>

lemma submit_with_panel_open_in_bounds:
  assumes "showAdvanced st" "submit st = Some c"
  shows "in_range 0 2 (RunConfig.temperature c) \<and> in_range 0 1 (top_p c) \<and>
         in_range 1 10000 (RunConfig.limit c)"
  using assms
  by (auto simp add: submit_def rendered_inputs_in_range_def handleSubmit_def Let_def
      split: if_splits)

text \<open>
  Claim C5 does not hold of the form. From the empty form: choose the benchmark gsm8k and
  the model openai/gpt-4o, show the advanced settings, type 5 as the temperature, hide the
  advanced settings and submit. The temperature stays in the state; its input is no
  longer rendered, so the browser has nothing to validate, and \<^verbatim>\<open>handleSubmit\<close>
  passes to \<^verbatim>\<open>onSubmit\<close> a config with the temperature 5, outside of [0,2]. With
  the advanced settings still shown, the same state is not submitted.
\<close>

theorem collapsed_panel_submits_temperature_out_of_range:
  "(let st = foldl (\<lambda>st e. form_step (\<lambda>v. 0) (\<lambda>v. if v = ''5'' then 5 else 0) e st)
               (initial_state [] None)
               [SetBenchmark ''gsm8k'', SetModel ''openai/gpt-4o'', ToggleAdvanced,
                TemperatureInput ''5'', ToggleAdvanced];
        c = \<lparr>schema_version = Undefined, benchmark = ''gsm8k'', model = ''openai/gpt-4o'',
             limit = Value 10, temperature = Value 5, top_p = Undefined,
             max_tokens = Undefined, timeout = Undefined, epochs = Undefined,
             max_connections = Undefined\<rparr>
    in temperature st = Value 5 \<and> showAdvanced st = False \<and>
       rendered_inputs_in_range st = True \<and>
       submit st = Some c \<and>
       spec_bounds c = False \<and>
       in_range 0 2 (RunConfig.temperature c) = False \<and>
       submit (st\<lparr>showAdvanced := True\<rparr>) = None)"
  by (simp add: Let_def initial_state_def handleNumberInput_def submit_def
      rendered_inputs_in_range_def handleSubmit_def spec_bounds_def)

text \<open>
  Read off the theorem: the temperature of the config that reaches \<^verbatim>\<open>onSubmit\<close> is 5,
  which is not within [0,2].
\<close>

theorem collapsed_panel_submits_temperature_out_of_range_witness:
  "map_option RunConfig.temperature
     (submit (foldl (\<lambda>st e. form_step (\<lambda>v. 0) (\<lambda>v. if v = ''5'' then 5 else 0) e st)
               (initial_state [] None)
               [SetBenchmark ''gsm8k'', SetModel ''openai/gpt-4o'', ToggleAdvanced,
                TemperatureInput ''5'', ToggleAdvanced])) = Some (Value 5) \<and>
   in_range 0 2 (Value 5) = False"
proof -
  note submitted = collapsed_panel_submits_temperature_out_of_range[unfolded Let_def,
      THEN conjunct2, THEN conjunct2, THEN conjunct2, THEN conjunct1]
  show ?thesis unfolding submitted by simp
qed

section \<open>Properties of the cancel boundary of the specification\<close>

















end
